theory Spec2Isabelle
  imports Complex_Main
begin

section \<open>Shared vocabulary\<close>

text \<open>
  The error messages of the library. The key extractors and the combined resolver
  throw the constants of the identity module (\<open>NO_MATCHING_PUBLIC_KEY\<close>,
  \<open>UNSUPPORTED_PUBLIC_KEY_METHOD\<close>, \<open>UNSUPPORTED_KEY_FORMAT\<close>,
  \<open>DOCUMENT_RESOLUTION_ERROR\<close>); the Provider has three of its own
  (\<open>NO_SIGNING_INFO\<close>, \<open>UNRESOLVED_IDENTITY\<close>, \<open>NO_PUBLIC_KEY\<close>, the last one
  with the message "No public key matches given private key"). \<open>OtherError\<close> stands
  for an exception raised by a collaborator (a resolver, the checksum library, the key
  classes, the response builder), carrying its message.
\<close>

datatype error =
    NO_MATCHING_PUBLIC_KEY
  | UNSUPPORTED_PUBLIC_KEY_METHOD
  | UNSUPPORTED_KEY_FORMAT
  | DOCUMENT_RESOLUTION_ERROR
  | NO_SIGNING_INFO
  | UNRESOLVED_IDENTITY
  | NO_PUBLIC_KEY
  | OtherError string

text \<open>
  The enumerations of \<open>globals\<close>, with the members the README lists and the code names.
  \<open>OTHER_KTY\<close> stands for any key type outside the three the Provider's switch names
  (the value \<open>getKeyType\<close> may give for an embedded JWK).
\<close>

datatype KTYS = RSA | EC | OKP | OTHER_KTY

datatype ALGORITHMS =
    RS256 | RS384 | RS512 | PS256 | PS384 | PS512
  | ES256 | ES384 | ES512 | ES256K | ES256K_R | EdDSA

datatype KEY_FORMATS =
    PKCS8_PEM | PKCS1_PEM | HEX | BASE58 | BASE64 | JWK | ETHEREUM_ADDRESS | ADDRESS

section \<open>Key extraction chain\<close>

subsection \<open>Verification methods and extracted keys\<close>

record Jwk =
  jwk_kty :: "string option"
  jwk_alg :: "string option"
  jwk_members :: "(string \<times> string) list"

text \<open>
  A verification method of a DID document (\<open>DidVerificationKeyMethod\<close>). Every member
  the extractors read is optional in the document; \<open>None\<close> is a member that is absent.
\<close>

record DidVerificationKeyMethod =
  vm_id :: "string option"
  vm_type :: "string option"
  publicKeyJwk :: "Jwk option"
  publicKeyHex :: "string option"
  publicKeyBase58 :: "string option"
  publicKeyBase64 :: "string option"
  publicKeyPem :: "string option"
  publicKeyPgp :: "string option"
  publicKeyGpg :: "string option"
  ethereumAddress :: "string option"
  address :: "string option"

text \<open>The public key of an extracted key is a JWK object or a string.\<close>

datatype PublicKey = JwkKey Jwk | StrKey string

record DidVerificationKey =
  k_id :: string
  kty :: KTYS
  alg :: ALGORITHMS
  format :: KEY_FORMATS
  publicKey :: PublicKey

text \<open>
  JavaScript truthiness of an optional string member: absent (\<open>undefined\<close>) and the
  empty string are both falsy. An object (a JWK) is truthy whenever it is present.
\<close>

definition truthy :: "string option \<Rightarrow> bool" where
  "truthy v = (case v of None \<Rightarrow> False | Some s \<Rightarrow> s \<noteq> [])"

text \<open>\<open>String.prototype.toUpperCase\<close> on the ASCII letters (type tags are ASCII).\<close>

definition toUpperCase_char :: "char \<Rightarrow> char" where
  "toUpperCase_char c =
     (let n = (of_char c :: nat) in if 97 \<le> n \<and> n \<le> 122 then char_of (n - 32) else c)"

definition toUpperCase :: "string \<Rightarrow> string" where
  "toUpperCase s = map toUpperCase_char s"

text \<open>
  What the extractors take from outside this file: \<open>toChecksumAddress\<close> of the
  checksum library and \<open>getKeyType\<close>, \<open>getAlgorithm\<close> of \<open>Utils\<close>, each of which may
  throw (\<open>Inl\<close>); and the truthiness of the value of each member of the enumeration
  \<open>KEY_FORMATS\<close>, which is declared in \<open>globals\<close>. Every member of a string
  enumeration is truthy; in a plain numeric enumeration the first member has the value
  0 and is falsy.
\<close>

record extract_env =
  toChecksumAddress :: "string \<Rightarrow> error + string"
  getKeyType :: "string option \<Rightarrow> error + KTYS"
  getAlgorithm :: "string option \<Rightarrow> error + ALGORITHMS"
  KEY_FORMATS_truthy :: "KEY_FORMATS \<Rightarrow> bool"

type_synonym extractor = "DidVerificationKeyMethod \<Rightarrow> error + DidVerificationKey"

subsection \<open>Probing the encoding members\<close>

text \<open>
  Truthiness of what a branch has stored in \<open>holder.publicKey\<close>: a JWK object is
  truthy, a string is truthy unless empty, \<open>undefined\<close> (\<open>None\<close>) is falsy.
\<close>

definition stored_key_truthy :: "PublicKey option \<Rightarrow> bool" where
  "stored_key_truthy v =
     (case v of None \<Rightarrow> False | Some (JwkKey j) \<Rightarrow> True | Some (StrKey s) \<Rightarrow> s \<noteq> [])"

text \<open>
  The end of \<open>getVerificationKeyFromDifferentFormats\<close>, after a branch has set
  \<open>holder.format\<close> to \<open>f\<close> and \<open>holder.publicKey\<close> to \<open>v\<close>: the test
  \<open>holder.format && holder.publicKey\<close> returns the holder or throws.
\<close>

definition finish_holder ::
    "extract_env \<Rightarrow> DidVerificationKey \<Rightarrow> KEY_FORMATS \<Rightarrow> PublicKey option
      \<Rightarrow> error + DidVerificationKey" where
  "finish_holder env holder f v =
     (if KEY_FORMATS_truthy env f \<and> stored_key_truthy v
      then Inr (holder\<lparr>format := f, publicKey := the v\<rparr>)
      else Inl UNSUPPORTED_KEY_FORMAT)"

text \<open>
  \<open>getVerificationKeyFromDifferentFormats(method, holder)\<close>: the \<open>if\<close>/\<open>else if\<close>
  chain over the encoding members, each branch followed by the final test. The
  \<open>publicKeyPgp\<close> branch stores \<open>method.publicKeyGpg\<close>; the Ethereum-address branch
  calls \<open>toChecksumAddress\<close>, which may throw. \<open>method\<close> and \<open>holder\<close> are objects.
\<close>

definition getVerificationKeyFromDifferentFormats ::
    "extract_env \<Rightarrow> DidVerificationKeyMethod \<Rightarrow> DidVerificationKey
      \<Rightarrow> error + DidVerificationKey" where
  "getVerificationKeyFromDifferentFormats env m holder =
     (if publicKeyJwk m \<noteq> None then
        finish_holder env holder JWK (map_option JwkKey (publicKeyJwk m))
      else if truthy (publicKeyHex m) then
        finish_holder env holder HEX (map_option StrKey (publicKeyHex m))
      else if truthy (publicKeyBase58 m) then
        finish_holder env holder BASE58 (map_option StrKey (publicKeyBase58 m))
      else if truthy (publicKeyBase64 m) then
        finish_holder env holder BASE64 (map_option StrKey (publicKeyBase64 m))
      else if truthy (publicKeyPem m) then
        finish_holder env holder PKCS8_PEM (map_option StrKey (publicKeyPem m))
      else if truthy (publicKeyPgp m) then
        finish_holder env holder PKCS8_PEM (map_option StrKey (publicKeyGpg m))
      else if truthy (ethereumAddress m) then
        (case toChecksumAddress env (the (ethereumAddress m)) of
           Inl e \<Rightarrow> Inl e
         | Inr c \<Rightarrow> finish_holder env holder ETHEREUM_ADDRESS (Some (StrKey c)))
      else if truthy (address m) then
        finish_holder env holder ADDRESS (map_option StrKey (address m))
      else Inl UNSUPPORTED_KEY_FORMAT)"

subsection \<open>The extractors\<close>

text \<open>
  Every extractor starts with the guard \<open>!method || !method.id || !method.type\<close>
  (the method itself is always an object here) and then tests
  \<open>this.names.includes(method.type.toUpperCase())\<close>; \<open>names\<close> was upper-cased by the
  constructor. \<open>nxt\<close> is the next extractor of the chain.
\<close>

definition missing_id_or_type :: "DidVerificationKeyMethod \<Rightarrow> bool" where
  "missing_id_or_type m = (\<not> truthy (vm_id m) \<or> \<not> truthy (vm_type m))"

definition names_include_type :: "string list \<Rightarrow> DidVerificationKeyMethod \<Rightarrow> bool" where
  "names_include_type names m =
     (case vm_type m of None \<Rightarrow> False | Some t \<Rightarrow> toUpperCase t \<in> set names)"

definition new_holder :: "DidVerificationKeyMethod \<Rightarrow> KTYS \<Rightarrow> ALGORITHMS \<Rightarrow> DidVerificationKey" where
  "new_holder m k a =
     \<lparr>k_id = the (vm_id m), kty = k, alg = a, format = HEX, publicKey = StrKey []\<rparr>"

definition EmptyDidVerificationKeyExtractor_extract :: extractor where
  "EmptyDidVerificationKeyExtractor_extract m = Inl UNSUPPORTED_PUBLIC_KEY_METHOD"

definition JwsVerificationKey2020Extractor_extract ::
    "extract_env \<Rightarrow> string list \<Rightarrow> extractor \<Rightarrow> extractor" where
  "JwsVerificationKey2020Extractor_extract env names nxt m =
     (if missing_id_or_type m then Inl NO_MATCHING_PUBLIC_KEY
      else if names_include_type names m then
        (case publicKeyJwk m of
           Some j \<Rightarrow>
             (case getKeyType env (jwk_kty j) of
                Inl e \<Rightarrow> Inl e
              | Inr k \<Rightarrow>
                  (case getAlgorithm env (jwk_alg j) of
                     Inl e \<Rightarrow> Inl e
                   | Inr a \<Rightarrow>
                       Inr \<lparr>k_id = the (vm_id m), kty = k, alg = a, format = JWK,
                            publicKey = JwkKey j\<rparr>))
         | None \<Rightarrow> Inl UNSUPPORTED_PUBLIC_KEY_METHOD)
      else nxt m)"

definition Ed25519VerificationKeyExtractor_extract ::
    "extract_env \<Rightarrow> string list \<Rightarrow> extractor \<Rightarrow> extractor" where
  "Ed25519VerificationKeyExtractor_extract env names nxt m =
     (if missing_id_or_type m then Inl NO_MATCHING_PUBLIC_KEY
      else if names_include_type names m then
        getVerificationKeyFromDifferentFormats env m (new_holder m OKP EdDSA)
      else nxt m)"

definition GpgVerificationKey2020Extractor_extract ::
    "string list \<Rightarrow> extractor \<Rightarrow> extractor" where
  "GpgVerificationKey2020Extractor_extract names nxt m =
     (if missing_id_or_type m then Inl NO_MATCHING_PUBLIC_KEY
      else if names_include_type names m then
        (if truthy (publicKeyGpg m) then
           Inr \<lparr>k_id = the (vm_id m), kty = RSA, alg = RS256, format = PKCS8_PEM,
                publicKey = StrKey (the (publicKeyGpg m))\<rparr>
         else Inl UNSUPPORTED_PUBLIC_KEY_METHOD)
      else nxt m)"

definition RsaVerificationKeyExtractor_extract ::
    "extract_env \<Rightarrow> string list \<Rightarrow> extractor \<Rightarrow> extractor" where
  "RsaVerificationKeyExtractor_extract env names nxt m =
     (if missing_id_or_type m then Inl NO_MATCHING_PUBLIC_KEY
      else if names_include_type names m then
        getVerificationKeyFromDifferentFormats env m (new_holder m RSA RS256)
      else nxt m)"

definition EcdsaSecp256k1VerificationKeyExtractor_extract ::
    "extract_env \<Rightarrow> string list \<Rightarrow> extractor \<Rightarrow> extractor" where
  "EcdsaSecp256k1VerificationKeyExtractor_extract env names nxt m =
     (if missing_id_or_type m then Inl NO_MATCHING_PUBLIC_KEY
      else if names_include_type names m then
        getVerificationKeyFromDifferentFormats env m (new_holder m EC ES256K)
      else nxt m)"

definition EcdsaSecp256r1VerificationKey2019Extractor_extract ::
    "extract_env \<Rightarrow> string list \<Rightarrow> extractor \<Rightarrow> extractor" where
  "EcdsaSecp256r1VerificationKey2019Extractor_extract env names nxt m =
     (if missing_id_or_type m then Inl NO_MATCHING_PUBLIC_KEY
      else if names_include_type names m then
        getVerificationKeyFromDifferentFormats env m (new_holder m EC ES256)
      else nxt m)"

definition EcdsaSecp256k1RecoveryMethod2020Extractor_extract ::
    "extract_env \<Rightarrow> string list \<Rightarrow> extractor \<Rightarrow> extractor" where
  "EcdsaSecp256k1RecoveryMethod2020Extractor_extract env names nxt m =
     (if missing_id_or_type m then Inl NO_MATCHING_PUBLIC_KEY
      else if names_include_type names m \<or> truthy (ethereumAddress m) then
        getVerificationKeyFromDifferentFormats env m (new_holder m EC ES256K_R)
      else nxt m)"

definition UniversalDidPublicKeyExtractor_extract :: "extractor \<Rightarrow> extractor" where
  "UniversalDidPublicKeyExtractor_extract nxt m = nxt m"

subsection \<open>The chain as the module builds it\<close>

definition jws_names :: "string list" where
  "jws_names = map toUpperCase [''JwsVerificationKey2020'']"

definition ed25519_names :: "string list" where
  "ed25519_names =
     map toUpperCase [''Ed25519VerificationKey2018'', ''ED25519SignatureVerification'']"

definition gpg_names :: "string list" where
  "gpg_names = map toUpperCase [''GpgVerificationKey2020'']"

definition rsa_names :: "string list" where
  "rsa_names = map toUpperCase [''RsaVerificationKey2018'']"

definition secp256k1_names :: "string list" where
  "secp256k1_names =
     map toUpperCase
       [''EcdsaSecp256k1VerificationKey2019'', ''Secp256k1VerificationKey2018'', ''Secp256k1'']"

definition secp256r1_names :: "string list" where
  "secp256r1_names = map toUpperCase [''EcdsaSecp256r1VerificationKey2019'']"

definition recovery_names :: "string list" where
  "recovery_names = map toUpperCase [''EcdsaSecp256k1RecoveryMethod2020'']"

definition jwsVerificationKey2020Extractor :: "extract_env \<Rightarrow> extractor" where
  "jwsVerificationKey2020Extractor env =
     JwsVerificationKey2020Extractor_extract env jws_names
       EmptyDidVerificationKeyExtractor_extract"

definition ed25519VerificationKeyExtractor :: "extract_env \<Rightarrow> extractor" where
  "ed25519VerificationKeyExtractor env =
     Ed25519VerificationKeyExtractor_extract env ed25519_names
       (jwsVerificationKey2020Extractor env)"

definition gpgVerificationKey2020Extractor :: "extract_env \<Rightarrow> extractor" where
  "gpgVerificationKey2020Extractor env =
     GpgVerificationKey2020Extractor_extract gpg_names (ed25519VerificationKeyExtractor env)"

definition rsaVerificationKeyExtractor :: "extract_env \<Rightarrow> extractor" where
  "rsaVerificationKeyExtractor env =
     RsaVerificationKeyExtractor_extract env rsa_names (gpgVerificationKey2020Extractor env)"

definition ecdsaSecp256k1VerificationKeyExtractor :: "extract_env \<Rightarrow> extractor" where
  "ecdsaSecp256k1VerificationKeyExtractor env =
     EcdsaSecp256k1VerificationKeyExtractor_extract env secp256k1_names
       (rsaVerificationKeyExtractor env)"

definition ecdsaSecp256r1VerificationKey2019Extractor :: "extract_env \<Rightarrow> extractor" where
  "ecdsaSecp256r1VerificationKey2019Extractor env =
     EcdsaSecp256r1VerificationKey2019Extractor_extract env secp256r1_names
       (ecdsaSecp256k1VerificationKeyExtractor env)"

definition ecdsaSecp256k1RecoveryMethod2020Extractor :: "extract_env \<Rightarrow> extractor" where
  "ecdsaSecp256k1RecoveryMethod2020Extractor env =
     EcdsaSecp256k1RecoveryMethod2020Extractor_extract env recovery_names
       (ecdsaSecp256r1VerificationKey2019Extractor env)"

definition uniExtractor :: "extract_env \<Rightarrow> extractor" where
  "uniExtractor env =
     UniversalDidPublicKeyExtractor_extract (ecdsaSecp256k1RecoveryMethod2020Extractor env)"

text \<open>
  No extractor of the chain accepts the method: the test of each one is false (the
  recoverable extractor also accepts on a truthy \<open>ethereumAddress\<close>).
\<close>

definition no_handler_matches :: "DidVerificationKeyMethod \<Rightarrow> bool" where
  "no_handler_matches m =
     (\<not> (names_include_type recovery_names m \<or> truthy (ethereumAddress m)) \<and>
      \<not> names_include_type secp256r1_names m \<and>
      \<not> names_include_type secp256k1_names m \<and>
      \<not> names_include_type rsa_names m \<and>
      \<not> names_include_type gpg_names m \<and>
      \<not> names_include_type ed25519_names m \<and>
      \<not> names_include_type jws_names m)"

text \<open>
  The method is accepted by one of the extractors that call
  \<open>getVerificationKeyFromDifferentFormats\<close>: the recoverable one (handler 1), secp256r1
  (2), secp256k1 (3), RSA (4) or Ed25519 (6).
\<close>

definition probing_handler_accepts :: "DidVerificationKeyMethod \<Rightarrow> bool" where
  "probing_handler_accepts m =
     (truthy (vm_id m) \<and> truthy (vm_type m) \<and>
      (truthy (ethereumAddress m) \<or>
       names_include_type recovery_names m \<or>
       names_include_type secp256r1_names m \<or>
       names_include_type secp256k1_names m \<or>
       names_include_type rsa_names m \<or>
       names_include_type ed25519_names m))"

text \<open>The method reaches the GPG extractor (handler 5) and is accepted by it.\<close>

definition gpg_handler_accepts :: "DidVerificationKeyMethod \<Rightarrow> bool" where
  "gpg_handler_accepts m =
     (truthy (vm_id m) \<and> truthy (vm_type m) \<and> \<not> truthy (ethereumAddress m) \<and>
      names_include_type gpg_names m)"

text \<open>The extraction result \<open>r\<close> is a key of format \<open>f\<close> with public key \<open>v\<close>.\<close>

definition chosen :: "error + DidVerificationKey \<Rightarrow> KEY_FORMATS \<Rightarrow> PublicKey \<Rightarrow> bool" where
  "chosen r f v = (case r of Inl e \<Rightarrow> False | Inr k \<Rightarrow> format k = f \<and> publicKey k = v)"

subsection \<open>Example methods\<close>

text \<open>
  Environments for the examples: the checksum function hands the address back, and an
  embedded JWK is read as an EC key for ES256K. In \<open>example_env\<close> the key formats are
  the members of a plain numeric enumeration in the order of the README, so that
  \<open>PKCS8_PEM\<close>, with the value 0, is the one falsy member; in \<open>string_enum_env\<close>
  they are the members of a string enumeration, all truthy.
\<close>

definition numeric_enum_truthy :: "KEY_FORMATS \<Rightarrow> bool" where
  "numeric_enum_truthy f = (f \<noteq> PKCS8_PEM)"

definition example_env :: extract_env where
  "example_env =
     \<lparr>toChecksumAddress = Inr, getKeyType = (\<lambda>t. Inr EC), getAlgorithm = (\<lambda>a. Inr ES256K),
      KEY_FORMATS_truthy = numeric_enum_truthy\<rparr>"

definition string_enum_env :: extract_env where
  "string_enum_env = example_env\<lparr>KEY_FORMATS_truthy := (\<lambda>f. True)\<rparr>"

definition empty_method :: DidVerificationKeyMethod where
  "empty_method =
     \<lparr>vm_id = None, vm_type = None, publicKeyJwk = None, publicKeyHex = None,
      publicKeyBase58 = None, publicKeyBase64 = None, publicKeyPem = None,
      publicKeyPgp = None, publicKeyGpg = None, ethereumAddress = None, address = None\<rparr>"

text \<open>An RSA-typed method of a did:ethr document that carries an Ethereum address.\<close>

definition rsa_typed_eth_method :: DidVerificationKeyMethod where
  "rsa_typed_eth_method =
     empty_method\<lparr>vm_id := Some ''did:ethr:0xB07Ead9717b44B6cF439c474362b9B0877CBBF83#controller'',
       vm_type := Some ''RsaVerificationKey2018'',
       ethereumAddress := Some ''0xB07Ead9717b44B6cF439c474362b9B0877CBBF83''\<rparr>"

text \<open>The same method without its \<open>id\<close>.\<close>

definition eth_method_without_id :: DidVerificationKeyMethod where
  "eth_method_without_id = rsa_typed_eth_method\<lparr>vm_id := None\<rparr>"

text \<open>A secp256k1 method that carries both a hex and a base58 encoding.\<close>

definition secp256k1_hex_method :: DidVerificationKeyMethod where
  "secp256k1_hex_method =
     empty_method\<lparr>vm_id := Some ''did:example:123#key-1'',
       vm_type := Some ''Secp256k1VerificationKey2018'',
       publicKeyHex := Some ''02b97c30de767f084ce3080168ee293053ba33b235d7116a3263d29f1450936b71'',
       publicKeyBase58 := Some ''H3C2AVvLMv6gmMNam3uVAjZpfkcJCwDwnZn6z3wXmqPV''\<rparr>"

text \<open>An Ed25519 method with no encoding member at all.\<close>

definition ed25519_bare_method :: DidVerificationKeyMethod where
  "ed25519_bare_method =
     empty_method\<lparr>vm_id := Some ''did:example:123#key-2'',
       vm_type := Some ''Ed25519VerificationKey2018''\<rparr>"

text \<open>A GPG-typed method whose key is given in hex.\<close>

definition gpg_hex_method :: DidVerificationKeyMethod where
  "gpg_hex_method =
     empty_method\<lparr>vm_id := Some ''did:example:123#key-3'',
       vm_type := Some ''GpgVerificationKey2020'',
       publicKeyHex := Some ''02b97c30de767f084ce3080168ee293053ba33b235d7116a3263d29f1450936b71''\<rparr>"

text \<open>A method whose type no extractor knows.\<close>

definition unknown_type_method :: DidVerificationKeyMethod where
  "unknown_type_method =
     empty_method\<lparr>vm_id := Some ''did:example:123#key-4'',
       vm_type := Some ''X25519KeyAgreementKey2019'',
       publicKeyBase58 := Some ''H3C2AVvLMv6gmMNam3uVAjZpfkcJCwDwnZn6z3wXmqPV''\<rparr>"

text \<open>An RSA method that carries only the member \<open>publicKeyPgp\<close>.\<close>

definition rsa_pgp_method :: DidVerificationKeyMethod where
  "rsa_pgp_method =
     empty_method\<lparr>vm_id := Some ''did:example:123#key-5'',
       vm_type := Some ''RsaVerificationKey2018'',
       publicKeyPgp := Some ''-----BEGIN PGP PUBLIC KEY BLOCK-----''\<rparr>"

text \<open>An RSA method whose key is given in PEM.\<close>

definition rsa_pem_method :: DidVerificationKeyMethod where
  "rsa_pem_method =
     empty_method\<lparr>vm_id := Some ''did:example:123#key-6'',
       vm_type := Some ''RsaVerificationKey2018'',
       publicKeyPem := Some ''-----BEGIN PUBLIC KEY-----''\<rparr>"

text \<open>A GPG-typed method that carries its armoured key.\<close>

definition gpg_method :: DidVerificationKeyMethod where
  "gpg_method =
     empty_method\<lparr>vm_id := Some ''did:example:123#key-7'',
       vm_type := Some ''GpgVerificationKey2020'',
       publicKeyGpg := Some ''-----BEGIN PGP PUBLIC KEY BLOCK-----''\<rparr>"

section \<open>Combined DID resolver\<close>

text \<open>
  A resolver of the chain, seen through its \<open>resolve(did)\<close>: it throws (\<open>Inl\<close>),
  returns nothing (\<open>Inr None\<close>, a falsy document) or returns a document.
\<close>

type_synonym 'doc DidResolver = "string \<Rightarrow> error + 'doc option"

record 'doc CombinedDidResolver =
  resolvers :: "'doc DidResolver list"

definition addResolver ::
    "'doc DidResolver \<Rightarrow> 'doc CombinedDidResolver \<Rightarrow> 'doc CombinedDidResolver" where
  "addResolver resolver c = c\<lparr>resolvers := resolvers c @ [resolver]\<rparr>"

text \<open>
  The \<open>for\<close> loop of \<open>resolveDidDocumet\<close> over the remaining resolvers. The number
  counts the calls of \<open>resolver.resolve\<close> made so far, so that the result tells how
  many resolvers were tried.
\<close>

fun resolve_loop :: "'doc DidResolver list \<Rightarrow> string \<Rightarrow> nat \<Rightarrow> (error + 'doc) \<times> nat" where
  "resolve_loop [] did n = (Inl DOCUMENT_RESOLUTION_ERROR, n)"
| "resolve_loop (resolver # rest) did n =
     (case resolver did of
        Inl err \<Rightarrow> resolve_loop rest did (Suc n)
      | Inr None \<Rightarrow> resolve_loop rest did (Suc n)
      | Inr (Some doc) \<Rightarrow> (Inr doc, Suc n))"

text \<open>
  \<open>resolveDidDocumet(did)\<close>: \<open>uniResolver\<close> is the \<open>UniversalDidResolver\<close> the method
  constructs when the list is empty. The result is the outcome, the number of resolvers
  called, and the resolver object after the call.
\<close>

definition resolveDidDocumet ::
    "'doc DidResolver \<Rightarrow> 'doc CombinedDidResolver \<Rightarrow> string
      \<Rightarrow> ((error + 'doc) \<times> nat) \<times> 'doc CombinedDidResolver" where
  "resolveDidDocumet uniResolver c did =
     (let c' = (if length (resolvers c) = 0 then addResolver uniResolver c else c)
      in (resolve_loop (resolvers c') did 0, c'))"

text \<open>The resolver returns a document for the DID.\<close>

definition gives_document :: "'doc DidResolver \<Rightarrow> string \<Rightarrow> bool" where
  "gives_document resolver did =
     (case resolver did of Inl err \<Rightarrow> False | Inr None \<Rightarrow> False | Inr (Some doc) \<Rightarrow> True)"

subsection \<open>Example resolvers\<close>

definition failing_resolver :: "string DidResolver" where
  "failing_resolver did = Inl (OtherError ''network unreachable'')"

definition empty_resolver :: "string DidResolver" where
  "empty_resolver did = Inr None"

definition key_resolver :: "string DidResolver" where
  "key_resolver did = Inr (Some (''key-document of '' @ did))"

definition ethr_resolver :: "string DidResolver" where
  "ethr_resolver did = Inr (Some (''ethr-document of '' @ did))"

definition uni_resolver :: "string DidResolver" where
  "uni_resolver did = Inr (Some (''universal document of '' @ did))"

section \<open>Provider\<close>

subsection \<open>State and collaborators\<close>

record SigningInfo =
  si_alg :: ALGORITHMS
  si_kid :: string
  si_key :: string
  si_format :: KEY_FORMATS

text \<open>
  The Provider, with the two members the modelled methods use: its identity (a class
  outside this file, kept abstract) and its \<open>signing_info_set\<close>.
\<close>

record 'id Provider =
  identity :: 'id
  signing_info_set :: "SigningInfo list"

text \<open>
  \<open>KeyInputs.KeyInfo\<close>, the argument of the key classes' \<open>fromKey\<close>. The members
  \<open>kty\<close> and \<open>alg\<close> hold the enumeration's own name of the extracted key's member
  (\<open>KTYS[didPublicKey.kty]\<close>), kept here as the member.
\<close>

record KeyInfo =
  ki_key :: PublicKey
  ki_kid :: string
  ki_use :: string
  ki_kty :: KTYS
  ki_alg :: ALGORITHMS
  ki_format :: KEY_FORMATS
  ki_isPrivate :: bool

datatype Signer = RSASigner | ECSigner | OKPSigner | ES256KRecoverableSigner

datatype Verifier = RSAVerifier | ECVerifier | OKPVerifier | ES256KRecoverableVerifier

text \<open>The public side handed to \<open>checkKeyPair\<close>: a key object, or the stored address.\<close>

datatype 'k KeyOrString = KeyObject 'k | KeyString PublicKey

text \<open>
  What \<open>addSigningParams\<close> calls outside this file: the identity's
  \<open>extractAuthenticationKeys\<close> (the extracted keys of the document's authentication
  methods, in order, or an exception), the multibase helpers, the key classes'
  \<open>fromKey\<close>, \<open>checkKeyPair\<close>, and the values \<open>KEY_FORMATS[key_format]\<close> that
  \<open>for (let key_format in KEY_FORMATS)\<close> runs through, in its order.
\<close>

record ('id, 'k) signing_env =
  extractAuthenticationKeys :: "'id \<Rightarrow> error + DidVerificationKey list"
  isMultibasePvtKey :: "string \<Rightarrow> bool"
  getBase58fromMultibase :: "string \<Rightarrow> error + string"
  RSAKey_fromKey :: "KeyInfo \<Rightarrow> error + 'k"
  ECKey_fromKey :: "KeyInfo \<Rightarrow> error + 'k"
  OKP_fromKey :: "KeyInfo \<Rightarrow> error + 'k"
  checkKeyPair :: "'k \<Rightarrow> 'k KeyOrString \<Rightarrow> Signer \<Rightarrow> Verifier \<Rightarrow> ALGORITHMS \<Rightarrow> error + bool"
  KEY_FORMATS_values :: "KEY_FORMATS list"

subsection \<open>addSigningParams\<close>

definition publicKeyInfo :: "DidVerificationKey \<Rightarrow> KeyInfo" where
  "publicKeyInfo didPublicKey =
     \<lparr>ki_key = publicKey didPublicKey, ki_kid = k_id didPublicKey, ki_use = ''sig'',
      ki_kty = kty didPublicKey, ki_alg = alg didPublicKey, ki_format = format didPublicKey,
      ki_isPrivate = False\<rparr>"

definition privateKeyInfo :: "string \<Rightarrow> DidVerificationKey \<Rightarrow> KEY_FORMATS \<Rightarrow> KeyInfo" where
  "privateKeyInfo key didPublicKey key_format =
     \<lparr>ki_key = StrKey key, ki_kid = k_id didPublicKey, ki_use = ''sig'',
      ki_kty = kty didPublicKey, ki_alg = alg didPublicKey, ki_format = key_format,
      ki_isPrivate = True\<rparr>"

text \<open>
  The body of the inner \<open>try\<close> up to the test of \<open>checkKeyPair\<close>: \<open>Inl\<close> is an
  exception thrown in it, \<open>Inr b\<close> the outcome of the test. The \<open>default\<close> case of the
  switch leaves the iteration by \<open>continue\<close>, as a failed test does.
\<close>

definition try_combination ::
    "('id, 'k) signing_env \<Rightarrow> DidVerificationKey \<Rightarrow> KeyInfo \<Rightarrow> KeyInfo \<Rightarrow> error + bool" where
  "try_combination env didPublicKey pubInfo privInfo =
     (case kty didPublicKey of
        RSA \<Rightarrow>
          (case RSAKey_fromKey env privInfo of
             Inl err \<Rightarrow> Inl err
           | Inr privateKey \<Rightarrow>
               (case RSAKey_fromKey env pubInfo of
                  Inl err \<Rightarrow> Inl err
                | Inr pubKey \<Rightarrow>
                    checkKeyPair env privateKey (KeyObject pubKey) RSASigner RSAVerifier
                      (alg didPublicKey)))
      | EC \<Rightarrow>
          (if format didPublicKey = ETHEREUM_ADDRESS then
             (case ECKey_fromKey env privInfo of
                Inl err \<Rightarrow> Inl err
              | Inr privateKey \<Rightarrow>
                  checkKeyPair env privateKey (KeyString (publicKey didPublicKey))
                    ES256KRecoverableSigner ES256KRecoverableVerifier (alg didPublicKey))
           else
             (case ECKey_fromKey env privInfo of
                Inl err \<Rightarrow> Inl err
              | Inr privateKey \<Rightarrow>
                  (case ECKey_fromKey env pubInfo of
                     Inl err \<Rightarrow> Inl err
                   | Inr pubKey \<Rightarrow>
                       checkKeyPair env privateKey (KeyObject pubKey) ECSigner ECVerifier
                         (alg didPublicKey))))
      | OKP \<Rightarrow>
          (case OKP_fromKey env privInfo of
             Inl err \<Rightarrow> Inl err
           | Inr privateKey \<Rightarrow>
               (case OKP_fromKey env pubInfo of
                  Inl err \<Rightarrow> Inl err
                | Inr pubKey \<Rightarrow>
                    checkKeyPair env privateKey (KeyObject pubKey) OKPSigner OKPVerifier
                      (alg didPublicKey)))
      | OTHER_KTY \<Rightarrow> Inr False)"

text \<open>
  The inner loop over the key formats for one document key. It returns the kid when a
  combination passes, having pushed the SigningInfo, and \<open>None\<close> when the formats are
  used up; the catch clause and a failed test both go on to the next format.
\<close>

fun format_loop ::
    "('id, 'k) signing_env \<Rightarrow> string \<Rightarrow> DidVerificationKey \<Rightarrow> KEY_FORMATS list
      \<Rightarrow> SigningInfo list \<Rightarrow> string option \<times> SigningInfo list" where
  "format_loop env key didPublicKey [] sis = (None, sis)"
| "format_loop env key didPublicKey (key_format # rest) sis =
     (case try_combination env didPublicKey (publicKeyInfo didPublicKey)
             (privateKeyInfo key didPublicKey key_format) of
        Inr True \<Rightarrow>
          (Some (k_id didPublicKey),
           sis @ [\<lparr>si_alg = alg didPublicKey, si_kid = k_id didPublicKey, si_key = key,
                   si_format = key_format\<rparr>])
      | Inr False \<Rightarrow> format_loop env key didPublicKey rest sis
      | Inl err \<Rightarrow> format_loop env key didPublicKey rest sis)"

text \<open>The outer loop over the document keys, and the \<open>throw\<close> after it.\<close>

fun key_loop ::
    "('id, 'k) signing_env \<Rightarrow> string \<Rightarrow> DidVerificationKey list \<Rightarrow> SigningInfo list
      \<Rightarrow> (error + string) \<times> SigningInfo list" where
  "key_loop env key [] sis = (Inl NO_PUBLIC_KEY, sis)"
| "key_loop env key (didPublicKey # rest) sis =
     (case format_loop env key didPublicKey (KEY_FORMATS_values env) sis of
        (Some kid, sis') \<Rightarrow> (Inr kid, sis')
      | (None, sis') \<Rightarrow> key_loop env key rest sis')"

text \<open>\<open>if (isMultibasePvtKey(key)) key = getBase58fromMultibase(key)\<close>.\<close>

definition normalize_key :: "('id, 'k) signing_env \<Rightarrow> string \<Rightarrow> error + string" where
  "normalize_key env key =
     (if isMultibasePvtKey env key then getBase58fromMultibase env key else Inr key)"

text \<open>
  \<open>addSigningParams(key)\<close>: the result is the returned kid or the exception, with the
  Provider after the call.
\<close>

definition addSigningParams ::
    "('id, 'k) signing_env \<Rightarrow> 'id Provider \<Rightarrow> string \<Rightarrow> (error + string) \<times> 'id Provider" where
  "addSigningParams env p key =
     (case extractAuthenticationKeys env (identity p) of
        Inl err \<Rightarrow> (Inl err, p)
      | Inr didPublicKeySet \<Rightarrow>
          (case normalize_key env key of
             Inl err \<Rightarrow> (Inl err, p)
           | Inr key' \<Rightarrow>
               (case key_loop env key' didPublicKeySet (signing_info_set p) of
                  (r, sis') \<Rightarrow> (r, p\<lparr>signing_info_set := sis'\<rparr>))))"

text \<open>
  The private key passes the key-pair check against the document key in the given
  format, and against the document key in some format.
\<close>

definition combination_matches ::
    "('id, 'k) signing_env \<Rightarrow> string \<Rightarrow> DidVerificationKey \<Rightarrow> KEY_FORMATS \<Rightarrow> bool" where
  "combination_matches env key didPublicKey key_format =
     (try_combination env didPublicKey (publicKeyInfo didPublicKey)
        (privateKeyInfo key didPublicKey key_format) = Inr True)"

definition key_matches ::
    "('id, 'k) signing_env \<Rightarrow> string \<Rightarrow> DidVerificationKey \<Rightarrow> bool" where
  "key_matches env key didPublicKey =
     list_ex (combination_matches env key didPublicKey) (KEY_FORMATS_values env)"

text \<open>The SigningInfo that \<open>addSigningParams\<close> pushes for a document key and a format.\<close>

definition pushed_info :: "DidVerificationKey \<Rightarrow> string \<Rightarrow> KEY_FORMATS \<Rightarrow> SigningInfo" where
  "pushed_info didPublicKey key key_format =
     \<lparr>si_alg = alg didPublicKey, si_kid = k_id didPublicKey, si_key = key,
      si_format = key_format\<rparr>"

subsection \<open>removeSigningParams\<close>

definition removeSigningParams :: "string \<Rightarrow> 'id Provider \<Rightarrow> 'id Provider" where
  "removeSigningParams kid p =
     p\<lparr>signing_info_set := filter (\<lambda>s. si_kid s \<noteq> kid) (signing_info_set p)\<rparr>"

subsection \<open>generateResponse and generateResponseWithVPData\<close>





record js_double =
  mantissa :: nat
  exponent :: nat


definition double_value :: "js_double \<Rightarrow> real" where
  "double_value d = real (mantissa d) / 2 ^ exponent d"








subsection \<open>Example Provider\<close>

text \<open>
  A toy key suite for the examples: a key object is its hex text, only the HEX format
  can be read (every other format throws), and a private key belongs to the public key
  that is its text reversed. An identity is the list of its extracted authentication
  keys, or \<open>None\<close> while it is unresolved.
\<close>

definition toy_fromKey :: "KeyInfo \<Rightarrow> error + string" where
  "toy_fromKey info =
     (case ki_key info of
        StrKey s \<Rightarrow>
          if ki_format info = HEX then Inr s else Inl (OtherError ''Invalid key format'')
      | JwkKey j \<Rightarrow> Inl (OtherError ''Invalid key format''))"

definition toy_checkKeyPair ::
    "string \<Rightarrow> string KeyOrString \<Rightarrow> Signer \<Rightarrow> Verifier \<Rightarrow> ALGORITHMS \<Rightarrow> error + bool" where
  "toy_checkKeyPair privateKey pub signer verifier a =
     (case pub of
        KeyObject k \<Rightarrow> Inr (k = rev privateKey)
      | KeyString v \<Rightarrow> Inr (v = StrKey (''0x'' @ rev privateKey)))"

definition toy_extractAuthenticationKeys ::
    "DidVerificationKey list option \<Rightarrow> error + DidVerificationKey list" where
  "toy_extractAuthenticationKeys idn =
     (case idn of None \<Rightarrow> Inl UNRESOLVED_IDENTITY | Some ks \<Rightarrow> Inr ks)"

definition toy_isMultibasePvtKey :: "string \<Rightarrow> bool" where
  "toy_isMultibasePvtKey key = (take 1 key = ''z'')"

definition toy_getBase58fromMultibase :: "string \<Rightarrow> error + string" where
  "toy_getBase58fromMultibase key = Inr (drop 1 key)"

definition toy_env :: "(DidVerificationKey list option, string) signing_env" where
  "toy_env =
     \<lparr>extractAuthenticationKeys = toy_extractAuthenticationKeys,
      isMultibasePvtKey = toy_isMultibasePvtKey,
      getBase58fromMultibase = toy_getBase58fromMultibase,
      RSAKey_fromKey = toy_fromKey, ECKey_fromKey = toy_fromKey, OKP_fromKey = toy_fromKey,
      checkKeyPair = toy_checkKeyPair,
      KEY_FORMATS_values =
        [PKCS8_PEM, PKCS1_PEM, HEX, BASE58, BASE64, JWK, ETHEREUM_ADDRESS, ADDRESS]\<rparr>"

definition key_oct :: DidVerificationKey where
  "key_oct = \<lparr>k_id = ''did:example:123#key-oct'', kty = OTHER_KTY, alg = ES256K, format = HEX,
     publicKey = StrKey ''4d3c''\<rparr>"

definition key_a :: DidVerificationKey where
  "key_a = \<lparr>k_id = ''did:example:123#key-a'', kty = RSA, alg = RS256, format = HEX,
     publicKey = StrKey ''1a2b''\<rparr>"

definition key_b :: DidVerificationKey where
  "key_b = \<lparr>k_id = ''did:example:123#key-b'', kty = EC, alg = ES256K, format = HEX,
     publicKey = StrKey ''4d3c''\<rparr>"

definition key_c :: DidVerificationKey where
  "key_c = \<lparr>k_id = ''did:example:123#key-c'', kty = OKP, alg = EdDSA, format = HEX,
     publicKey = StrKey ''4d3c''\<rparr>"

definition old_info :: SigningInfo where
  "old_info = \<lparr>si_alg = RS256, si_kid = ''did:example:123#key-a'', si_key = ''b2a1'',
     si_format = HEX\<rparr>"

definition new_info :: SigningInfo where
  "new_info = \<lparr>si_alg = ES256K, si_kid = ''did:example:123#key-b'', si_key = ''c3d4'',
     si_format = HEX\<rparr>"

definition toy_provider :: "DidVerificationKey list option Provider" where
  "toy_provider =
     \<lparr>identity = Some [key_oct, key_a, key_b, key_c], signing_info_set = [old_info]\<rparr>"

definition unresolved_provider :: "DidVerificationKey list option Provider" where
  "unresolved_provider = \<lparr>identity = None, signing_info_set = [old_info]\<rparr>"







definition boundary_double :: js_double where
  "boundary_double = \<lparr>mantissa = 2573485501354569, exponent = 52\<rparr>"




section \<open>Properties of the key extraction chain\<close>

subsection \<open>The upper-cased names and the order of the chain\<close>

lemma recovery_names_eval: "recovery_names = [''ECDSASECP256K1RECOVERYMETHOD2020'']"
  by code_simp

lemma secp256r1_names_eval: "secp256r1_names = [''ECDSASECP256R1VERIFICATIONKEY2019'']"
  by code_simp

lemma secp256k1_names_eval:
  "secp256k1_names =
     [''ECDSASECP256K1VERIFICATIONKEY2019'', ''SECP256K1VERIFICATIONKEY2018'', ''SECP256K1'']"
  by code_simp

lemma rsa_names_eval: "rsa_names = [''RSAVERIFICATIONKEY2018'']"
  by code_simp

lemma gpg_names_eval: "gpg_names = [''GPGVERIFICATIONKEY2020'']"
  by code_simp

lemma ed25519_names_eval:
  "ed25519_names = [''ED25519VERIFICATIONKEY2018'', ''ED25519SIGNATUREVERIFICATION'']"
  by code_simp

lemma jws_names_eval: "jws_names = [''JWSVERIFICATIONKEY2020'']"
  by code_simp

lemmas names_eval = recovery_names_eval secp256r1_names_eval secp256k1_names_eval
  rsa_names_eval gpg_names_eval ed25519_names_eval jws_names_eval

lemma names_include_type_iff:
  "names_include_type names m = (\<exists>t. vm_type m = Some t \<and> toUpperCase t \<in> set names)"
  by (cases "vm_type m") (simp_all add: names_include_type_def)

lemmas chain_defs = uniExtractor_def UniversalDidPublicKeyExtractor_extract_def
  ecdsaSecp256k1RecoveryMethod2020Extractor_def
  EcdsaSecp256k1RecoveryMethod2020Extractor_extract_def
  ecdsaSecp256r1VerificationKey2019Extractor_def
  EcdsaSecp256r1VerificationKey2019Extractor_extract_def
  ecdsaSecp256k1VerificationKeyExtractor_def
  EcdsaSecp256k1VerificationKeyExtractor_extract_def
  rsaVerificationKeyExtractor_def RsaVerificationKeyExtractor_extract_def
  gpgVerificationKey2020Extractor_def GpgVerificationKey2020Extractor_extract_def
  ed25519VerificationKeyExtractor_def Ed25519VerificationKeyExtractor_extract_def
  jwsVerificationKey2020Extractor_def JwsVerificationKey2020Extractor_extract_def
  EmptyDidVerificationKeyExtractor_extract_def

lemma uniExtractor_guard:
  "missing_id_or_type m \<Longrightarrow> uniExtractor env m = Inl NO_MATCHING_PUBLIC_KEY"
  by (simp add: chain_defs)

lemma uniExtractor_recovery:
  "\<not> missing_id_or_type m \<Longrightarrow>
   names_include_type recovery_names m \<or> truthy (ethereumAddress m) \<Longrightarrow>
   uniExtractor env m =
     getVerificationKeyFromDifferentFormats env m (new_holder m EC ES256K_R)"
  by (simp add: chain_defs)

lemma uniExtractor_secp256r1:
  "\<not> missing_id_or_type m \<Longrightarrow> \<not> truthy (ethereumAddress m) \<Longrightarrow>
   names_include_type secp256r1_names m \<Longrightarrow>
   uniExtractor env m = getVerificationKeyFromDifferentFormats env m (new_holder m EC ES256)"
  by (auto simp add: chain_defs names_include_type_iff names_eval)

lemma uniExtractor_secp256k1:
  "\<not> missing_id_or_type m \<Longrightarrow> \<not> truthy (ethereumAddress m) \<Longrightarrow>
   names_include_type secp256k1_names m \<Longrightarrow>
   uniExtractor env m = getVerificationKeyFromDifferentFormats env m (new_holder m EC ES256K)"
  by (auto simp add: chain_defs names_include_type_iff names_eval)

lemma uniExtractor_rsa:
  "\<not> missing_id_or_type m \<Longrightarrow> \<not> truthy (ethereumAddress m) \<Longrightarrow>
   names_include_type rsa_names m \<Longrightarrow>
   uniExtractor env m = getVerificationKeyFromDifferentFormats env m (new_holder m RSA RS256)"
  by (auto simp add: chain_defs names_include_type_iff names_eval)

lemma uniExtractor_gpg:
  "\<not> missing_id_or_type m \<Longrightarrow> \<not> truthy (ethereumAddress m) \<Longrightarrow>
   names_include_type gpg_names m \<Longrightarrow>
   uniExtractor env m =
     (if truthy (publicKeyGpg m) then
        Inr \<lparr>k_id = the (vm_id m), kty = RSA, alg = RS256, format = PKCS8_PEM,
             publicKey = StrKey (the (publicKeyGpg m))\<rparr>
      else Inl UNSUPPORTED_PUBLIC_KEY_METHOD)"
  by (auto simp add: chain_defs names_include_type_iff names_eval)

lemma uniExtractor_ed25519:
  "\<not> missing_id_or_type m \<Longrightarrow> \<not> truthy (ethereumAddress m) \<Longrightarrow>
   names_include_type ed25519_names m \<Longrightarrow>
   uniExtractor env m = getVerificationKeyFromDifferentFormats env m (new_holder m OKP EdDSA)"
  by (auto simp add: chain_defs names_include_type_iff names_eval)

lemma uniExtractor_no_match:
  "\<not> missing_id_or_type m \<Longrightarrow> no_handler_matches m \<Longrightarrow>
   uniExtractor env m = Inl UNSUPPORTED_PUBLIC_KEY_METHOD"
  by (simp add: chain_defs no_handler_matches_def)

text \<open>
  Whichever probing extractor accepts the method, the result of the chain is the result
  of the probe on a holder that carries the method's id.
\<close>

lemma uniExtractor_probing:
  assumes "probing_handler_accepts m"
  shows "\<exists>kt al. uniExtractor env m =
           getVerificationKeyFromDifferentFormats env m (new_holder m kt al)"
proof -
  from assms have ok: "\<not> missing_id_or_type m"
    by (simp add: probing_handler_accepts_def missing_id_or_type_def)
  show ?thesis
  proof (cases "names_include_type recovery_names m \<or> truthy (ethereumAddress m)")
    case True
    with ok show ?thesis using uniExtractor_recovery by blast
  next
    case False
    then have ne: "\<not> truthy (ethereumAddress m)" by simp
    from assms False consider
        "names_include_type secp256r1_names m"
      | "names_include_type secp256k1_names m"
      | "names_include_type rsa_names m"
      | "names_include_type ed25519_names m"
      by (auto simp add: probing_handler_accepts_def)
    then show ?thesis
    proof cases
      case 1 with ok ne show ?thesis using uniExtractor_secp256r1 by blast
    next
      case 2 with ok ne show ?thesis using uniExtractor_secp256k1 by blast
    next
      case 3 with ok ne show ?thesis using uniExtractor_rsa by blast
    next
      case 4 with ok ne show ?thesis using uniExtractor_ed25519 by blast
    qed
  qed
qed

subsection \<open>The probe of the encoding members\<close>

lemma finish_holder_Inr:
  "finish_holder env h f v = Inr k \<Longrightarrow> k_id k = k_id h \<and> kty k = kty h \<and> alg k = alg h"
  by (auto simp add: finish_holder_def split: if_splits)

lemma finish_holder_Inl: "finish_holder env h f v = Inl e \<Longrightarrow> e = UNSUPPORTED_KEY_FORMAT"
  by (auto simp add: finish_holder_def split: if_splits)

lemma finish_holder_string:
  "KEY_FORMATS_truthy env f \<Longrightarrow> truthy v \<Longrightarrow>
   finish_holder env h f (map_option StrKey v) = Inr (h\<lparr>format := f, publicKey := StrKey (the v)\<rparr>)"
  by (cases v) (simp_all add: finish_holder_def stored_key_truthy_def truthy_def)

lemma finish_holder_falsy_format:
  "\<not> KEY_FORMATS_truthy env f \<Longrightarrow> finish_holder env h f v = Inl UNSUPPORTED_KEY_FORMAT"
  by (simp add: finish_holder_def)

lemma probe_keeps_suite:
  "getVerificationKeyFromDifferentFormats env m h = Inr k \<Longrightarrow>
   k_id k = k_id h \<and> kty k = kty h \<and> alg k = alg h"
  unfolding getVerificationKeyFromDifferentFormats_def
  by (auto split: if_splits sum.splits dest: finish_holder_Inr)

lemma probe_errors:
  "getVerificationKeyFromDifferentFormats env m h = Inl e \<Longrightarrow>
   e = UNSUPPORTED_KEY_FORMAT \<or>
   (truthy (ethereumAddress m) \<and> toChecksumAddress env (the (ethereumAddress m)) = Inl e)"
  unfolding getVerificationKeyFromDifferentFormats_def
  by (auto split: if_splits sum.splits dest: finish_holder_Inl)

lemma probe_jwk:
  "publicKeyJwk m = Some j \<Longrightarrow> KEY_FORMATS_truthy env JWK \<Longrightarrow>
   chosen (getVerificationKeyFromDifferentFormats env m h) JWK (JwkKey j)"
  by (simp add: getVerificationKeyFromDifferentFormats_def chosen_def finish_holder_def
      stored_key_truthy_def)

lemma probe_hex:
  "publicKeyJwk m = None \<Longrightarrow> truthy (publicKeyHex m) \<Longrightarrow> KEY_FORMATS_truthy env HEX \<Longrightarrow>
   chosen (getVerificationKeyFromDifferentFormats env m h) HEX (StrKey (the (publicKeyHex m)))"
  by (simp add: getVerificationKeyFromDifferentFormats_def chosen_def finish_holder_string)

lemma probe_base58:
  "publicKeyJwk m = None \<Longrightarrow> \<not> truthy (publicKeyHex m) \<Longrightarrow> truthy (publicKeyBase58 m) \<Longrightarrow>
   KEY_FORMATS_truthy env BASE58 \<Longrightarrow>
   chosen (getVerificationKeyFromDifferentFormats env m h) BASE58
     (StrKey (the (publicKeyBase58 m)))"
  by (simp add: getVerificationKeyFromDifferentFormats_def chosen_def finish_holder_string)

lemma probe_base64:
  "publicKeyJwk m = None \<Longrightarrow> \<not> truthy (publicKeyHex m) \<Longrightarrow> \<not> truthy (publicKeyBase58 m) \<Longrightarrow>
   truthy (publicKeyBase64 m) \<Longrightarrow> KEY_FORMATS_truthy env BASE64 \<Longrightarrow>
   chosen (getVerificationKeyFromDifferentFormats env m h) BASE64
     (StrKey (the (publicKeyBase64 m)))"
  by (simp add: getVerificationKeyFromDifferentFormats_def chosen_def finish_holder_string)

lemma probe_pem:
  "publicKeyJwk m = None \<Longrightarrow> \<not> truthy (publicKeyHex m) \<Longrightarrow> \<not> truthy (publicKeyBase58 m) \<Longrightarrow>
   \<not> truthy (publicKeyBase64 m) \<Longrightarrow> truthy (publicKeyPem m) \<Longrightarrow>
   KEY_FORMATS_truthy env PKCS8_PEM \<Longrightarrow>
   chosen (getVerificationKeyFromDifferentFormats env m h) PKCS8_PEM
     (StrKey (the (publicKeyPem m)))"
  by (simp add: getVerificationKeyFromDifferentFormats_def chosen_def finish_holder_string)

lemma probe_ethereum_address_result:
  "publicKeyJwk m = None \<Longrightarrow> \<not> truthy (publicKeyHex m) \<Longrightarrow> \<not> truthy (publicKeyBase58 m) \<Longrightarrow>
   \<not> truthy (publicKeyBase64 m) \<Longrightarrow> \<not> truthy (publicKeyPem m) \<Longrightarrow>
   \<not> truthy (publicKeyPgp m) \<Longrightarrow> truthy (ethereumAddress m) \<Longrightarrow>
   KEY_FORMATS_truthy env ETHEREUM_ADDRESS \<Longrightarrow>
   toChecksumAddress env (the (ethereumAddress m)) = Inr c \<Longrightarrow> c \<noteq> [] \<Longrightarrow>
   getVerificationKeyFromDifferentFormats env m h =
     Inr (h\<lparr>format := ETHEREUM_ADDRESS, publicKey := StrKey c\<rparr>)"
  by (simp add: getVerificationKeyFromDifferentFormats_def finish_holder_def
      stored_key_truthy_def)

lemma probe_ethereum_address:
  "publicKeyJwk m = None \<Longrightarrow> \<not> truthy (publicKeyHex m) \<Longrightarrow> \<not> truthy (publicKeyBase58 m) \<Longrightarrow>
   \<not> truthy (publicKeyBase64 m) \<Longrightarrow> \<not> truthy (publicKeyPem m) \<Longrightarrow>
   \<not> truthy (publicKeyPgp m) \<Longrightarrow> truthy (ethereumAddress m) \<Longrightarrow>
   KEY_FORMATS_truthy env ETHEREUM_ADDRESS \<Longrightarrow>
   toChecksumAddress env (the (ethereumAddress m)) = Inr c \<Longrightarrow> c \<noteq> [] \<Longrightarrow>
   chosen (getVerificationKeyFromDifferentFormats env m h) ETHEREUM_ADDRESS (StrKey c)"
  by (simp add: probe_ethereum_address_result chosen_def)

lemma probe_address:
  "publicKeyJwk m = None \<Longrightarrow> \<not> truthy (publicKeyHex m) \<Longrightarrow> \<not> truthy (publicKeyBase58 m) \<Longrightarrow>
   \<not> truthy (publicKeyBase64 m) \<Longrightarrow> \<not> truthy (publicKeyPem m) \<Longrightarrow>
   \<not> truthy (publicKeyPgp m) \<Longrightarrow> \<not> truthy (ethereumAddress m) \<Longrightarrow> truthy (address m) \<Longrightarrow>
   KEY_FORMATS_truthy env ADDRESS \<Longrightarrow>
   chosen (getVerificationKeyFromDifferentFormats env m h) ADDRESS
     (StrKey (the (address m)))"
  by (simp add: getVerificationKeyFromDifferentFormats_def chosen_def finish_holder_string)

lemma probe_nothing:
  "publicKeyJwk m = None \<Longrightarrow> \<not> truthy (publicKeyHex m) \<Longrightarrow> \<not> truthy (publicKeyBase58 m) \<Longrightarrow>
   \<not> truthy (publicKeyBase64 m) \<Longrightarrow> \<not> truthy (publicKeyPem m) \<Longrightarrow>
   \<not> truthy (publicKeyPgp m) \<Longrightarrow> \<not> truthy (ethereumAddress m) \<Longrightarrow> \<not> truthy (address m) \<Longrightarrow>
   getVerificationKeyFromDifferentFormats env m h = Inl UNSUPPORTED_KEY_FORMAT"
  by (simp add: getVerificationKeyFromDifferentFormats_def)

text \<open>
  The \<open>publicKeyPgp\<close> branch tests one member and stores another: a method that carries
  only \<open>publicKeyPgp\<close> is refused, whatever the armoured key is.
\<close>

lemma probe_pgp_without_gpg:
  "publicKeyJwk m = None \<Longrightarrow> \<not> truthy (publicKeyHex m) \<Longrightarrow> \<not> truthy (publicKeyBase58 m) \<Longrightarrow>
   \<not> truthy (publicKeyBase64 m) \<Longrightarrow> \<not> truthy (publicKeyPem m) \<Longrightarrow>
   truthy (publicKeyPgp m) \<Longrightarrow> \<not> truthy (publicKeyGpg m) \<Longrightarrow>
   getVerificationKeyFromDifferentFormats env m h = Inl UNSUPPORTED_KEY_FORMAT"
  by (cases "publicKeyGpg m")
    (simp_all add: getVerificationKeyFromDifferentFormats_def finish_holder_def
      stored_key_truthy_def truthy_def)

lemma rsa_pgp_method_refused:
  "uniExtractor example_env rsa_pgp_method = Inl UNSUPPORTED_KEY_FORMAT"
  by code_simp

text \<open>
  The final test refuses a key whose format member has a falsy value: with the key
  formats as a plain numeric enumeration, a PEM key is refused; with a string
  enumeration it is returned.
\<close>

lemma rsa_pem_method_numeric_enum:
  "uniExtractor example_env rsa_pem_method = Inl UNSUPPORTED_KEY_FORMAT"
  by code_simp

lemma rsa_pem_method_string_enum:
  "uniExtractor string_enum_env rsa_pem_method =
     Inr \<lparr>k_id = ''did:example:123#key-6'', kty = RSA, alg = RS256, format = PKCS8_PEM,
          publicKey = StrKey ''-----BEGIN PUBLIC KEY-----''\<rparr>"
  by code_simp

subsection \<open>Claims about the chain\<close>

text \<open>
  Claim C1, as amended. A verification method that has an id and a type and carries a
  non-empty Ethereum address is taken by the EC-recoverable extractor, the first of the
  chain, whatever its type tag says: every key the extraction returns for it has key
  type EC, algorithm ES256K-R and the method's id, and the extraction fails only with
  \<open>UNSUPPORTED_KEY_FORMAT\<close> or with the error of the checksum function. When the
  address is the only encoding member of the method, the value of
  \<open>KEY_FORMATS.ETHEREUM_ADDRESS\<close> is truthy and the checksum function gives a non-empty
  address, the extraction returns the key with algorithm ES256K-R, format
  \<open>ETHEREUM_ADDRESS\<close> and that address.
\<close>

theorem ethereum_address_classified_ES256K_R:
  assumes "truthy (vm_id m)" and "truthy (vm_type m)" and "truthy (ethereumAddress m)"
  shows "(\<forall>k. uniExtractor env m = Inr k \<longrightarrow>
            alg k = ES256K_R \<and> kty k = EC \<and> Some (k_id k) = vm_id m) \<and>
         (\<forall>e. uniExtractor env m = Inl e \<longrightarrow>
            e = UNSUPPORTED_KEY_FORMAT \<or>
            toChecksumAddress env (the (ethereumAddress m)) = Inl e) \<and>
         (\<forall>c. publicKeyJwk m = None \<and> \<not> truthy (publicKeyHex m) \<and>
              \<not> truthy (publicKeyBase58 m) \<and> \<not> truthy (publicKeyBase64 m) \<and>
              \<not> truthy (publicKeyPem m) \<and> \<not> truthy (publicKeyPgp m) \<and>
              KEY_FORMATS_truthy env ETHEREUM_ADDRESS \<and>
              toChecksumAddress env (the (ethereumAddress m)) = Inr c \<and> c \<noteq> [] \<longrightarrow>
            uniExtractor env m =
              Inr \<lparr>k_id = the (vm_id m), kty = EC, alg = ES256K_R,
                   format = ETHEREUM_ADDRESS, publicKey = StrKey c\<rparr>)"
proof -
  from assms have ok: "\<not> missing_id_or_type m"
    by (simp add: missing_id_or_type_def)
  let ?h = "new_holder m EC ES256K_R"
  have eq: "uniExtractor env m = getVerificationKeyFromDifferentFormats env m ?h"
    using ok assms(3) by (simp add: uniExtractor_recovery)
  have id_h: "Some (k_id ?h) = vm_id m"
    using assms(1) by (cases "vm_id m") (simp_all add: new_holder_def truthy_def)
  have suite: "alg k = ES256K_R \<and> kty k = EC \<and> Some (k_id k) = vm_id m"
    if "uniExtractor env m = Inr k" for k
  proof -
    from that eq have "getVerificationKeyFromDifferentFormats env m ?h = Inr k" by simp
    from probe_keeps_suite[OF this] id_h show ?thesis by (simp add: new_holder_def)
  qed
  have errs: "e = UNSUPPORTED_KEY_FORMAT \<or>
      toChecksumAddress env (the (ethereumAddress m)) = Inl e"
    if "uniExtractor env m = Inl e" for e
  proof -
    from that eq have "getVerificationKeyFromDifferentFormats env m ?h = Inl e" by simp
    from probe_errors[OF this] show ?thesis by blast
  qed
  have succ: "uniExtractor env m =
      Inr \<lparr>k_id = the (vm_id m), kty = EC, alg = ES256K_R,
           format = ETHEREUM_ADDRESS, publicKey = StrKey c\<rparr>"
    if "publicKeyJwk m = None \<and> \<not> truthy (publicKeyHex m) \<and>
        \<not> truthy (publicKeyBase58 m) \<and> \<not> truthy (publicKeyBase64 m) \<and>
        \<not> truthy (publicKeyPem m) \<and> \<not> truthy (publicKeyPgp m) \<and>
        KEY_FORMATS_truthy env ETHEREUM_ADDRESS \<and>
        toChecksumAddress env (the (ethereumAddress m)) = Inr c \<and> c \<noteq> []" for c
  proof -
    from that assms(3) have "getVerificationKeyFromDifferentFormats env m ?h =
        Inr (?h\<lparr>format := ETHEREUM_ADDRESS, publicKey := StrKey c\<rparr>)"
      by (intro probe_ethereum_address_result) simp_all
    with eq show ?thesis by (simp add: new_holder_def)
  qed
  from suite errs succ show ?thesis by blast
qed

theorem ethereum_address_classified_ES256K_R_witness:
  "truthy (vm_id rsa_typed_eth_method) \<and> truthy (vm_type rsa_typed_eth_method) \<and>
   truthy (ethereumAddress rsa_typed_eth_method) \<and>
   vm_type rsa_typed_eth_method = Some ''RsaVerificationKey2018'' \<and>
   uniExtractor example_env rsa_typed_eth_method =
     Inr \<lparr>k_id = the (vm_id rsa_typed_eth_method), kty = EC, alg = ES256K_R,
          format = ETHEREUM_ADDRESS,
          publicKey = StrKey ''0xB07Ead9717b44B6cF439c474362b9B0877CBBF83''\<rparr> \<and>
   the (vm_id rsa_typed_eth_method) =
     ''did:ethr:0xB07Ead9717b44B6cF439c474362b9B0877CBBF83#controller'' \<and>
   alg (projr (uniExtractor example_env rsa_typed_eth_method)) = ES256K_R"
proof -
  have h1: "truthy (vm_id rsa_typed_eth_method)" by code_simp
  have h2: "truthy (vm_type rsa_typed_eth_method)" by code_simp
  have h3: "truthy (ethereumAddress rsa_typed_eth_method)" by code_simp
  have t: "vm_type rsa_typed_eth_method = Some ''RsaVerificationKey2018''"
    by (simp add: rsa_typed_eth_method_def)
  have i: "the (vm_id rsa_typed_eth_method) =
      ''did:ethr:0xB07Ead9717b44B6cF439c474362b9B0877CBBF83#controller''"
    by (simp add: rsa_typed_eth_method_def)
  have only: "publicKeyJwk rsa_typed_eth_method = None \<and>
      \<not> truthy (publicKeyHex rsa_typed_eth_method) \<and>
      \<not> truthy (publicKeyBase58 rsa_typed_eth_method) \<and>
      \<not> truthy (publicKeyBase64 rsa_typed_eth_method) \<and>
      \<not> truthy (publicKeyPem rsa_typed_eth_method) \<and>
      \<not> truthy (publicKeyPgp rsa_typed_eth_method) \<and>
      KEY_FORMATS_truthy example_env ETHEREUM_ADDRESS \<and>
      toChecksumAddress example_env (the (ethereumAddress rsa_typed_eth_method)) =
        Inr ''0xB07Ead9717b44B6cF439c474362b9B0877CBBF83'' \<and>
      ''0xB07Ead9717b44B6cF439c474362b9B0877CBBF83'' \<noteq> []"
    by (simp add: rsa_typed_eth_method_def empty_method_def truthy_def example_env_def
        numeric_enum_truthy_def)
  note inst = ethereum_address_classified_ES256K_R[OF h1 h2 h3, of example_env]
  from inst only have r: "uniExtractor example_env rsa_typed_eth_method =
     Inr \<lparr>k_id = the (vm_id rsa_typed_eth_method), kty = EC, alg = ES256K_R,
          format = ETHEREUM_ADDRESS,
          publicKey = StrKey ''0xB07Ead9717b44B6cF439c474362b9B0877CBBF83''\<rparr>"
    by blast
  then have a: "alg (projr (uniExtractor example_env rsa_typed_eth_method)) = ES256K_R"
    by simp
  from h1 h2 h3 t r i a show ?thesis by blast
qed

text \<open>
  Claim C1 as stated fails: a method that carries an Ethereum address but no id, or an
  empty one, is not classified at all; the guard of the first extractor refuses it.
\<close>

theorem ethereum_address_without_id_counterexample:
  "truthy (ethereumAddress eth_method_without_id) \<and>
   uniExtractor example_env eth_method_without_id = Inl NO_MATCHING_PUBLIC_KEY \<and>
   truthy (ethereumAddress (rsa_typed_eth_method\<lparr>vm_id := Some []\<rparr>)) \<and>
   uniExtractor example_env (rsa_typed_eth_method\<lparr>vm_id := Some []\<rparr>) =
     Inl NO_MATCHING_PUBLIC_KEY"
  by code_simp

text \<open>
  Claim C4, as amended. For a verification method accepted by an extractor that probes
  the encoding members (handlers 1 to 4 and 6), the key value and format are those of the
  first present member in the order JWK, hex, base58, base64, PEM; then, when the method
  has no \<open>publicKeyPgp\<close> member, the Ethereum address in the form the checksum function
  returns, then the generic address; each provided that the value of the \<open>KEY_FORMATS\<close>
  member of that format is truthy, which the final test of the probe requires. The
  extraction fails with \<open>UNSUPPORTED_KEY_FORMAT\<close> when all of these members are absent.
  The GPG extractor (handler 5) does not probe: it returns the member \<open>publicKeyGpg\<close>
  as a PEM key, and fails with \<open>UNSUPPORTED_PUBLIC_KEY_METHOD\<close> when that member is
  absent.
\<close>

theorem probing_priority:
  "(probing_handler_accepts m \<longrightarrow>
     (\<forall>j. publicKeyJwk m = Some j \<and> KEY_FORMATS_truthy env JWK \<longrightarrow>
        chosen (uniExtractor env m) JWK (JwkKey j)) \<and>
     (publicKeyJwk m = None \<and> truthy (publicKeyHex m) \<and> KEY_FORMATS_truthy env HEX \<longrightarrow>
        chosen (uniExtractor env m) HEX (StrKey (the (publicKeyHex m)))) \<and>
     (publicKeyJwk m = None \<and> \<not> truthy (publicKeyHex m) \<and> truthy (publicKeyBase58 m) \<and>
      KEY_FORMATS_truthy env BASE58 \<longrightarrow>
        chosen (uniExtractor env m) BASE58 (StrKey (the (publicKeyBase58 m)))) \<and>
     (publicKeyJwk m = None \<and> \<not> truthy (publicKeyHex m) \<and> \<not> truthy (publicKeyBase58 m) \<and>
      truthy (publicKeyBase64 m) \<and> KEY_FORMATS_truthy env BASE64 \<longrightarrow>
        chosen (uniExtractor env m) BASE64 (StrKey (the (publicKeyBase64 m)))) \<and>
     (publicKeyJwk m = None \<and> \<not> truthy (publicKeyHex m) \<and> \<not> truthy (publicKeyBase58 m) \<and>
      \<not> truthy (publicKeyBase64 m) \<and> truthy (publicKeyPem m) \<and>
      KEY_FORMATS_truthy env PKCS8_PEM \<longrightarrow>
        chosen (uniExtractor env m) PKCS8_PEM (StrKey (the (publicKeyPem m)))) \<and>
     (\<forall>c. publicKeyJwk m = None \<and> \<not> truthy (publicKeyHex m) \<and>
          \<not> truthy (publicKeyBase58 m) \<and> \<not> truthy (publicKeyBase64 m) \<and>
          \<not> truthy (publicKeyPem m) \<and> \<not> truthy (publicKeyPgp m) \<and>
          truthy (ethereumAddress m) \<and> KEY_FORMATS_truthy env ETHEREUM_ADDRESS \<and>
          toChecksumAddress env (the (ethereumAddress m)) = Inr c \<and> c \<noteq> [] \<longrightarrow>
        chosen (uniExtractor env m) ETHEREUM_ADDRESS (StrKey c)) \<and>
     (publicKeyJwk m = None \<and> \<not> truthy (publicKeyHex m) \<and> \<not> truthy (publicKeyBase58 m) \<and>
      \<not> truthy (publicKeyBase64 m) \<and> \<not> truthy (publicKeyPem m) \<and>
      \<not> truthy (publicKeyPgp m) \<and> \<not> truthy (ethereumAddress m) \<and> truthy (address m) \<and>
      KEY_FORMATS_truthy env ADDRESS \<longrightarrow>
        chosen (uniExtractor env m) ADDRESS (StrKey (the (address m)))) \<and>
     (publicKeyJwk m = None \<and> \<not> truthy (publicKeyHex m) \<and> \<not> truthy (publicKeyBase58 m) \<and>
      \<not> truthy (publicKeyBase64 m) \<and> \<not> truthy (publicKeyPem m) \<and>
      \<not> truthy (publicKeyPgp m) \<and> \<not> truthy (ethereumAddress m) \<and> \<not> truthy (address m) \<longrightarrow>
        uniExtractor env m = Inl UNSUPPORTED_KEY_FORMAT)) \<and>
   (gpg_handler_accepts m \<longrightarrow>
     (truthy (publicKeyGpg m) \<longrightarrow>
        uniExtractor env m =
          Inr \<lparr>k_id = the (vm_id m), kty = RSA, alg = RS256, format = PKCS8_PEM,
               publicKey = StrKey (the (publicKeyGpg m))\<rparr>) \<and>
     (\<not> truthy (publicKeyGpg m) \<longrightarrow>
        uniExtractor env m = Inl UNSUPPORTED_PUBLIC_KEY_METHOD))"
proof (rule conjI)
  show "probing_handler_accepts m \<longrightarrow>
     (\<forall>j. publicKeyJwk m = Some j \<and> KEY_FORMATS_truthy env JWK \<longrightarrow>
        chosen (uniExtractor env m) JWK (JwkKey j)) \<and>
     (publicKeyJwk m = None \<and> truthy (publicKeyHex m) \<and> KEY_FORMATS_truthy env HEX \<longrightarrow>
        chosen (uniExtractor env m) HEX (StrKey (the (publicKeyHex m)))) \<and>
     (publicKeyJwk m = None \<and> \<not> truthy (publicKeyHex m) \<and> truthy (publicKeyBase58 m) \<and>
      KEY_FORMATS_truthy env BASE58 \<longrightarrow>
        chosen (uniExtractor env m) BASE58 (StrKey (the (publicKeyBase58 m)))) \<and>
     (publicKeyJwk m = None \<and> \<not> truthy (publicKeyHex m) \<and> \<not> truthy (publicKeyBase58 m) \<and>
      truthy (publicKeyBase64 m) \<and> KEY_FORMATS_truthy env BASE64 \<longrightarrow>
        chosen (uniExtractor env m) BASE64 (StrKey (the (publicKeyBase64 m)))) \<and>
     (publicKeyJwk m = None \<and> \<not> truthy (publicKeyHex m) \<and> \<not> truthy (publicKeyBase58 m) \<and>
      \<not> truthy (publicKeyBase64 m) \<and> truthy (publicKeyPem m) \<and>
      KEY_FORMATS_truthy env PKCS8_PEM \<longrightarrow>
        chosen (uniExtractor env m) PKCS8_PEM (StrKey (the (publicKeyPem m)))) \<and>
     (\<forall>c. publicKeyJwk m = None \<and> \<not> truthy (publicKeyHex m) \<and>
          \<not> truthy (publicKeyBase58 m) \<and> \<not> truthy (publicKeyBase64 m) \<and>
          \<not> truthy (publicKeyPem m) \<and> \<not> truthy (publicKeyPgp m) \<and>
          truthy (ethereumAddress m) \<and> KEY_FORMATS_truthy env ETHEREUM_ADDRESS \<and>
          toChecksumAddress env (the (ethereumAddress m)) = Inr c \<and> c \<noteq> [] \<longrightarrow>
        chosen (uniExtractor env m) ETHEREUM_ADDRESS (StrKey c)) \<and>
     (publicKeyJwk m = None \<and> \<not> truthy (publicKeyHex m) \<and> \<not> truthy (publicKeyBase58 m) \<and>
      \<not> truthy (publicKeyBase64 m) \<and> \<not> truthy (publicKeyPem m) \<and>
      \<not> truthy (publicKeyPgp m) \<and> \<not> truthy (ethereumAddress m) \<and> truthy (address m) \<and>
      KEY_FORMATS_truthy env ADDRESS \<longrightarrow>
        chosen (uniExtractor env m) ADDRESS (StrKey (the (address m)))) \<and>
     (publicKeyJwk m = None \<and> \<not> truthy (publicKeyHex m) \<and> \<not> truthy (publicKeyBase58 m) \<and>
      \<not> truthy (publicKeyBase64 m) \<and> \<not> truthy (publicKeyPem m) \<and>
      \<not> truthy (publicKeyPgp m) \<and> \<not> truthy (ethereumAddress m) \<and> \<not> truthy (address m) \<longrightarrow>
        uniExtractor env m = Inl UNSUPPORTED_KEY_FORMAT)"
  proof
    assume "probing_handler_accepts m"
    from uniExtractor_probing[OF this, of env] obtain kt al where
      eq: "uniExtractor env m =
             getVerificationKeyFromDifferentFormats env m (new_holder m kt al)"
      by blast
    show "(\<forall>j. publicKeyJwk m = Some j \<and> KEY_FORMATS_truthy env JWK \<longrightarrow>
        chosen (uniExtractor env m) JWK (JwkKey j)) \<and>
     (publicKeyJwk m = None \<and> truthy (publicKeyHex m) \<and> KEY_FORMATS_truthy env HEX \<longrightarrow>
        chosen (uniExtractor env m) HEX (StrKey (the (publicKeyHex m)))) \<and>
     (publicKeyJwk m = None \<and> \<not> truthy (publicKeyHex m) \<and> truthy (publicKeyBase58 m) \<and>
      KEY_FORMATS_truthy env BASE58 \<longrightarrow>
        chosen (uniExtractor env m) BASE58 (StrKey (the (publicKeyBase58 m)))) \<and>
     (publicKeyJwk m = None \<and> \<not> truthy (publicKeyHex m) \<and> \<not> truthy (publicKeyBase58 m) \<and>
      truthy (publicKeyBase64 m) \<and> KEY_FORMATS_truthy env BASE64 \<longrightarrow>
        chosen (uniExtractor env m) BASE64 (StrKey (the (publicKeyBase64 m)))) \<and>
     (publicKeyJwk m = None \<and> \<not> truthy (publicKeyHex m) \<and> \<not> truthy (publicKeyBase58 m) \<and>
      \<not> truthy (publicKeyBase64 m) \<and> truthy (publicKeyPem m) \<and>
      KEY_FORMATS_truthy env PKCS8_PEM \<longrightarrow>
        chosen (uniExtractor env m) PKCS8_PEM (StrKey (the (publicKeyPem m)))) \<and>
     (\<forall>c. publicKeyJwk m = None \<and> \<not> truthy (publicKeyHex m) \<and>
          \<not> truthy (publicKeyBase58 m) \<and> \<not> truthy (publicKeyBase64 m) \<and>
          \<not> truthy (publicKeyPem m) \<and> \<not> truthy (publicKeyPgp m) \<and>
          truthy (ethereumAddress m) \<and> KEY_FORMATS_truthy env ETHEREUM_ADDRESS \<and>
          toChecksumAddress env (the (ethereumAddress m)) = Inr c \<and> c \<noteq> [] \<longrightarrow>
        chosen (uniExtractor env m) ETHEREUM_ADDRESS (StrKey c)) \<and>
     (publicKeyJwk m = None \<and> \<not> truthy (publicKeyHex m) \<and> \<not> truthy (publicKeyBase58 m) \<and>
      \<not> truthy (publicKeyBase64 m) \<and> \<not> truthy (publicKeyPem m) \<and>
      \<not> truthy (publicKeyPgp m) \<and> \<not> truthy (ethereumAddress m) \<and> truthy (address m) \<and>
      KEY_FORMATS_truthy env ADDRESS \<longrightarrow>
        chosen (uniExtractor env m) ADDRESS (StrKey (the (address m)))) \<and>
     (publicKeyJwk m = None \<and> \<not> truthy (publicKeyHex m) \<and> \<not> truthy (publicKeyBase58 m) \<and>
      \<not> truthy (publicKeyBase64 m) \<and> \<not> truthy (publicKeyPem m) \<and>
      \<not> truthy (publicKeyPgp m) \<and> \<not> truthy (ethereumAddress m) \<and> \<not> truthy (address m) \<longrightarrow>
        uniExtractor env m = Inl UNSUPPORTED_KEY_FORMAT)"
      unfolding eq
      by (intro conjI allI impI; (elim conjE)?;
          simp add: probe_jwk probe_hex probe_base58 probe_base64 probe_pem
            probe_ethereum_address probe_address probe_nothing)
  qed
next
  show "gpg_handler_accepts m \<longrightarrow>
     (truthy (publicKeyGpg m) \<longrightarrow>
        uniExtractor env m =
          Inr \<lparr>k_id = the (vm_id m), kty = RSA, alg = RS256, format = PKCS8_PEM,
               publicKey = StrKey (the (publicKeyGpg m))\<rparr>) \<and>
     (\<not> truthy (publicKeyGpg m) \<longrightarrow>
        uniExtractor env m = Inl UNSUPPORTED_PUBLIC_KEY_METHOD)"
  proof
    assume "gpg_handler_accepts m"
    then have "\<not> missing_id_or_type m" and "\<not> truthy (ethereumAddress m)"
      and "names_include_type gpg_names m"
      by (simp_all add: gpg_handler_accepts_def missing_id_or_type_def)
    from uniExtractor_gpg[OF this, of env]
    show "(truthy (publicKeyGpg m) \<longrightarrow>
        uniExtractor env m =
          Inr \<lparr>k_id = the (vm_id m), kty = RSA, alg = RS256, format = PKCS8_PEM,
               publicKey = StrKey (the (publicKeyGpg m))\<rparr>) \<and>
     (\<not> truthy (publicKeyGpg m) \<longrightarrow>
        uniExtractor env m = Inl UNSUPPORTED_PUBLIC_KEY_METHOD)"
      by simp
  qed
qed

theorem probing_priority_witness:
  "probing_handler_accepts secp256k1_hex_method \<and>
   publicKeyBase58 secp256k1_hex_method = Some ''H3C2AVvLMv6gmMNam3uVAjZpfkcJCwDwnZn6z3wXmqPV'' \<and>
   chosen (uniExtractor example_env secp256k1_hex_method) HEX
     (StrKey ''02b97c30de767f084ce3080168ee293053ba33b235d7116a3263d29f1450936b71'') \<and>
   probing_handler_accepts ed25519_bare_method \<and>
   uniExtractor example_env ed25519_bare_method = Inl UNSUPPORTED_KEY_FORMAT \<and>
   probing_handler_accepts rsa_typed_eth_method \<and>
   chosen (uniExtractor example_env rsa_typed_eth_method) ETHEREUM_ADDRESS
     (StrKey ''0xB07Ead9717b44B6cF439c474362b9B0877CBBF83'') \<and>
   probing_handler_accepts rsa_pem_method \<and>
   chosen (uniExtractor string_enum_env rsa_pem_method) PKCS8_PEM
     (StrKey ''-----BEGIN PUBLIC KEY-----'') \<and>
   gpg_handler_accepts gpg_method \<and>
   uniExtractor example_env gpg_method =
     Inr \<lparr>k_id = ''did:example:123#key-7'', kty = RSA, alg = RS256, format = PKCS8_PEM,
          publicKey = StrKey ''-----BEGIN PGP PUBLIC KEY BLOCK-----''\<rparr> \<and>
   gpg_handler_accepts gpg_hex_method \<and>
   uniExtractor example_env gpg_hex_method = Inl UNSUPPORTED_PUBLIC_KEY_METHOD"
proof -
  have a1: "probing_handler_accepts secp256k1_hex_method" by code_simp
  have a2: "probing_handler_accepts ed25519_bare_method" by code_simp
  have a3: "probing_handler_accepts rsa_typed_eth_method" by code_simp
  have a4: "probing_handler_accepts rsa_pem_method" by code_simp
  have g1: "gpg_handler_accepts gpg_method" by code_simp
  have g2: "gpg_handler_accepts gpg_hex_method" by code_simp
  have b: "publicKeyBase58 secp256k1_hex_method =
      Some ''H3C2AVvLMv6gmMNam3uVAjZpfkcJCwDwnZn6z3wXmqPV''"
    by (simp add: secp256k1_hex_method_def)
  have h: "publicKeyJwk secp256k1_hex_method = None \<and>
      truthy (publicKeyHex secp256k1_hex_method) \<and> KEY_FORMATS_truthy example_env HEX"
    by (simp add: secp256k1_hex_method_def empty_method_def truthy_def example_env_def
        numeric_enum_truthy_def)
  have hv: "the (publicKeyHex secp256k1_hex_method) =
      ''02b97c30de767f084ce3080168ee293053ba33b235d7116a3263d29f1450936b71''"
    by (simp add: secp256k1_hex_method_def)
  have n: "publicKeyJwk ed25519_bare_method = None \<and>
      \<not> truthy (publicKeyHex ed25519_bare_method) \<and>
      \<not> truthy (publicKeyBase58 ed25519_bare_method) \<and>
      \<not> truthy (publicKeyBase64 ed25519_bare_method) \<and>
      \<not> truthy (publicKeyPem ed25519_bare_method) \<and>
      \<not> truthy (publicKeyPgp ed25519_bare_method) \<and>
      \<not> truthy (ethereumAddress ed25519_bare_method) \<and>
      \<not> truthy (address ed25519_bare_method)"
    by (simp add: ed25519_bare_method_def empty_method_def truthy_def)
  have t: "publicKeyJwk rsa_typed_eth_method = None \<and>
      \<not> truthy (publicKeyHex rsa_typed_eth_method) \<and>
      \<not> truthy (publicKeyBase58 rsa_typed_eth_method) \<and>
      \<not> truthy (publicKeyBase64 rsa_typed_eth_method) \<and>
      \<not> truthy (publicKeyPem rsa_typed_eth_method) \<and>
      \<not> truthy (publicKeyPgp rsa_typed_eth_method) \<and>
      truthy (ethereumAddress rsa_typed_eth_method) \<and>
      KEY_FORMATS_truthy example_env ETHEREUM_ADDRESS \<and>
      toChecksumAddress example_env (the (ethereumAddress rsa_typed_eth_method)) =
        Inr ''0xB07Ead9717b44B6cF439c474362b9B0877CBBF83'' \<and>
      ''0xB07Ead9717b44B6cF439c474362b9B0877CBBF83'' \<noteq> []"
    by (simp add: rsa_typed_eth_method_def empty_method_def truthy_def example_env_def
        numeric_enum_truthy_def)
  have pm: "publicKeyJwk rsa_pem_method = None \<and> \<not> truthy (publicKeyHex rsa_pem_method) \<and>
      \<not> truthy (publicKeyBase58 rsa_pem_method) \<and> \<not> truthy (publicKeyBase64 rsa_pem_method) \<and>
      truthy (publicKeyPem rsa_pem_method) \<and> KEY_FORMATS_truthy string_enum_env PKCS8_PEM"
    by (simp add: rsa_pem_method_def empty_method_def truthy_def string_enum_env_def)
  have pv: "the (publicKeyPem rsa_pem_method) = ''-----BEGIN PUBLIC KEY-----''"
    by (simp add: rsa_pem_method_def)
  have gv: "truthy (publicKeyGpg gpg_method) \<and>
      the (publicKeyGpg gpg_method) = ''-----BEGIN PGP PUBLIC KEY BLOCK-----'' \<and>
      the (vm_id gpg_method) = ''did:example:123#key-7''"
    by (simp add: gpg_method_def truthy_def)
  have gn: "\<not> truthy (publicKeyGpg gpg_hex_method)"
    by (simp add: gpg_hex_method_def empty_method_def truthy_def)
  note p1 = probing_priority[of secp256k1_hex_method example_env, THEN conjunct1, rule_format,
      OF a1]
  from p1 h have "chosen (uniExtractor example_env secp256k1_hex_method) HEX
      (StrKey (the (publicKeyHex secp256k1_hex_method)))"
    by blast
  with hv have c1: "chosen (uniExtractor example_env secp256k1_hex_method) HEX
      (StrKey ''02b97c30de767f084ce3080168ee293053ba33b235d7116a3263d29f1450936b71'')"
    by simp
  note p2 = probing_priority[of ed25519_bare_method example_env, THEN conjunct1, rule_format,
      OF a2]
  from p2 n have c2: "uniExtractor example_env ed25519_bare_method = Inl UNSUPPORTED_KEY_FORMAT"
    by blast
  note p3 = probing_priority[of rsa_typed_eth_method example_env, THEN conjunct1, rule_format,
      OF a3]
  from p3 t have c3: "chosen (uniExtractor example_env rsa_typed_eth_method) ETHEREUM_ADDRESS
      (StrKey ''0xB07Ead9717b44B6cF439c474362b9B0877CBBF83'')"
    by blast
  note p4 = probing_priority[of rsa_pem_method string_enum_env, THEN conjunct1, rule_format,
      OF a4]
  from p4 pm have "chosen (uniExtractor string_enum_env rsa_pem_method) PKCS8_PEM
      (StrKey (the (publicKeyPem rsa_pem_method)))"
    by blast
  with pv have c4: "chosen (uniExtractor string_enum_env rsa_pem_method) PKCS8_PEM
      (StrKey ''-----BEGIN PUBLIC KEY-----'')"
    by simp
  note q1 = probing_priority[of gpg_method example_env, THEN conjunct2, rule_format, OF g1]
  from q1 gv have c5: "uniExtractor example_env gpg_method =
      Inr \<lparr>k_id = ''did:example:123#key-7'', kty = RSA, alg = RS256, format = PKCS8_PEM,
           publicKey = StrKey ''-----BEGIN PGP PUBLIC KEY BLOCK-----''\<rparr>"
    by simp
  note q2 = probing_priority[of gpg_hex_method example_env, THEN conjunct2, rule_format, OF g2]
  from q2 gn have c6: "uniExtractor example_env gpg_hex_method =
      Inl UNSUPPORTED_PUBLIC_KEY_METHOD"
    by simp
  from a1 b c1 a2 c2 a3 c3 a4 c4 g1 c5 g2 c6 show ?thesis by blast
qed

text \<open>
  Claim C4 as stated fails for handler 5: the GPG extractor does not probe the encoding
  members. A GPG-typed method whose key is given in hex is refused with
  \<open>UNSUPPORTED_PUBLIC_KEY_METHOD\<close>, where the claim has its hex member chosen.
\<close>

theorem gpg_handler_does_not_probe_counterexample:
  "names_include_type gpg_names gpg_hex_method \<and>
   truthy (publicKeyHex gpg_hex_method) \<and>
   \<not> chosen (uniExtractor example_env gpg_hex_method) HEX
       (StrKey (the (publicKeyHex gpg_hex_method))) \<and>
   uniExtractor example_env gpg_hex_method = Inl UNSUPPORTED_PUBLIC_KEY_METHOD"
  by code_simp

text \<open>
  Claim C6. The extraction fails with \<open>NO_MATCHING_PUBLIC_KEY\<close> whenever the method is
  missing its id or its type, and with \<open>UNSUPPORTED_PUBLIC_KEY_METHOD\<close> when the method
  has both and no extractor of the chain accepts it.
\<close>

theorem extraction_failures:
  "(missing_id_or_type m \<longrightarrow> uniExtractor env m = Inl NO_MATCHING_PUBLIC_KEY) \<and>
   (\<not> missing_id_or_type m \<and> no_handler_matches m \<longrightarrow>
      uniExtractor env m = Inl UNSUPPORTED_PUBLIC_KEY_METHOD)"
  using uniExtractor_guard uniExtractor_no_match by blast

theorem extraction_failures_witness:
  "missing_id_or_type eth_method_without_id \<and>
   missing_id_or_type (unknown_type_method\<lparr>vm_type := Some []\<rparr>) \<and>
   uniExtractor example_env eth_method_without_id = Inl NO_MATCHING_PUBLIC_KEY \<and>
   uniExtractor example_env (unknown_type_method\<lparr>vm_type := Some []\<rparr>) =
     Inl NO_MATCHING_PUBLIC_KEY \<and>
   no_handler_matches unknown_type_method \<and>
   uniExtractor example_env unknown_type_method = Inl UNSUPPORTED_PUBLIC_KEY_METHOD"
proof -
  have a: "missing_id_or_type eth_method_without_id" by code_simp
  have b: "missing_id_or_type (unknown_type_method\<lparr>vm_type := Some []\<rparr>)" by code_simp
  have c: "\<not> missing_id_or_type unknown_type_method" by code_simp
  have d: "no_handler_matches unknown_type_method" by code_simp
  from extraction_failures[of eth_method_without_id example_env] a
  have r1: "uniExtractor example_env eth_method_without_id = Inl NO_MATCHING_PUBLIC_KEY"
    by blast
  from extraction_failures[of "unknown_type_method\<lparr>vm_type := Some []\<rparr>" example_env] b
  have r2: "uniExtractor example_env (unknown_type_method\<lparr>vm_type := Some []\<rparr>) =
     Inl NO_MATCHING_PUBLIC_KEY"
    by blast
  from extraction_failures[of unknown_type_method example_env] c d
  have r3: "uniExtractor example_env unknown_type_method = Inl UNSUPPORTED_PUBLIC_KEY_METHOD"
    by blast
  from a b d r1 r2 r3 show ?thesis by blast
qed


section \<open>Properties of the combined resolver\<close>

lemma resolve_loop_skips:
  "\<forall>r \<in> set pre. \<not> gives_document r did \<Longrightarrow>
   resolve_loop (pre @ rest) did n = resolve_loop rest did (n + length pre)"
proof (induction pre arbitrary: n)
  case Nil
  then show ?case by simp
next
  case (Cons r pre)
  then have "\<not> gives_document r did" and rest: "\<forall>q \<in> set pre. \<not> gives_document q did"
    by simp_all
  then have step: "resolve_loop ((r # pre) @ rest) did n = resolve_loop (pre @ rest) did (Suc n)"
    by (auto simp add: gives_document_def split: sum.splits option.splits)
  from Cons.IH[OF rest, of "Suc n"] step show ?case by simp
qed

lemma resolve_loop_first_document:
  assumes "\<forall>r \<in> set pre. \<not> gives_document r did" and "resolver did = Inr (Some doc)"
  shows "resolve_loop (pre @ resolver # post) did n = (Inr doc, n + length pre + 1)"
  using resolve_loop_skips[OF assms(1), of "resolver # post" n] assms(2) by simp

lemma resolve_loop_exhausted:
  assumes "\<forall>r \<in> set rs. \<not> gives_document r did"
  shows "resolve_loop rs did n = (Inl DOCUMENT_RESOLUTION_ERROR, n + length rs)"
  using resolve_loop_skips[OF assms, of "[]" n] by simp

lemma resolve_loop_error:
  "resolve_loop rs did n = (Inl e, k) \<Longrightarrow>
   e = DOCUMENT_RESOLUTION_ERROR \<and> k = n + length rs \<and> (\<forall>r \<in> set rs. \<not> gives_document r did)"
proof (induction rs arbitrary: n)
  case Nil
  then show ?case by simp
next
  case (Cons r rs)
  show ?case
  proof (cases "gives_document r did")
    case True
    with Cons.prems show ?thesis
      by (auto simp add: gives_document_def split: sum.splits option.splits)
  next
    case False
    then have "resolve_loop (r # rs) did n = resolve_loop rs did (Suc n)"
      by (auto simp add: gives_document_def split: sum.splits option.splits)
    with Cons.prems have "resolve_loop rs did (Suc n) = (Inl e, k)" by simp
    from Cons.IH[OF this] False show ?thesis by simp
  qed
qed

lemma resolvers_after_resolveDidDocumet:
  "resolvers (snd (resolveDidDocumet uni c did)) =
     (if resolvers c = [] then [uni] else resolvers c)"
  by (simp add: resolveDidDocumet_def addResolver_def Let_def)

lemma fst_resolveDidDocumet:
  "fst (resolveDidDocumet uni c did) =
     resolve_loop (resolvers (snd (resolveDidDocumet uni c did))) did 0"
  by (simp add: resolveDidDocumet_def Let_def)

text \<open>
  Claim C3. The combined resolver appends the universal resolver when its list is empty
  and otherwise leaves the list as it is; it then calls the resolvers in list order,
  passes over each one that throws or returns nothing, and returns the document of the
  first one that returns one, having called exactly the resolvers up to it; it fails, and
  then with \<open>DOCUMENT_RESOLUTION_ERROR\<close>, exactly when no resolver of the list returns a
  document, having called every one of them.
\<close>

theorem combined_resolver_chain:
  "(resolvers c = [] \<longrightarrow> resolvers (snd (resolveDidDocumet uni c did)) = [uni]) \<and>
   (resolvers c \<noteq> [] \<longrightarrow> resolvers (snd (resolveDidDocumet uni c did)) = resolvers c) \<and>
   (\<forall>pre resolver post doc.
      resolvers (snd (resolveDidDocumet uni c did)) = pre @ resolver # post \<and>
      (\<forall>r \<in> set pre. \<not> gives_document r did) \<and> resolver did = Inr (Some doc) \<longrightarrow>
      fst (resolveDidDocumet uni c did) = (Inr doc, length pre + 1)) \<and>
   ((\<forall>r \<in> set (resolvers (snd (resolveDidDocumet uni c did))). \<not> gives_document r did) \<longrightarrow>
      fst (resolveDidDocumet uni c did) =
        (Inl DOCUMENT_RESOLUTION_ERROR, length (resolvers (snd (resolveDidDocumet uni c did))))) \<and>
   (\<forall>e n. fst (resolveDidDocumet uni c did) = (Inl e, n) \<longrightarrow>
      e = DOCUMENT_RESOLUTION_ERROR \<and>
      n = length (resolvers (snd (resolveDidDocumet uni c did))) \<and>
      (\<forall>r \<in> set (resolvers (snd (resolveDidDocumet uni c did))). \<not> gives_document r did))"
proof (intro conjI allI impI)
  show "resolvers (snd (resolveDidDocumet uni c did)) = [uni]" if "resolvers c = []"
    using that by (simp add: resolvers_after_resolveDidDocumet)
  show "resolvers (snd (resolveDidDocumet uni c did)) = resolvers c" if "resolvers c \<noteq> []"
    using that by (simp add: resolvers_after_resolveDidDocumet)
  show "fst (resolveDidDocumet uni c did) = (Inr doc, length pre + 1)"
    if "resolvers (snd (resolveDidDocumet uni c did)) = pre @ resolver # post \<and>
        (\<forall>r \<in> set pre. \<not> gives_document r did) \<and> resolver did = Inr (Some doc)"
    for pre resolver post doc
    using that resolve_loop_first_document[of pre did resolver doc post 0]
    by (simp add: fst_resolveDidDocumet)
  show "fst (resolveDidDocumet uni c did) =
      (Inl DOCUMENT_RESOLUTION_ERROR, length (resolvers (snd (resolveDidDocumet uni c did))))"
    if "\<forall>r \<in> set (resolvers (snd (resolveDidDocumet uni c did))). \<not> gives_document r did"
    using resolve_loop_exhausted[OF that, of 0] by (simp add: fst_resolveDidDocumet)
  fix e n
  assume "fst (resolveDidDocumet uni c did) = (Inl e, n)"
  then have "resolve_loop (resolvers (snd (resolveDidDocumet uni c did))) did 0 = (Inl e, n)"
    by (simp add: fst_resolveDidDocumet)
  from resolve_loop_error[OF this]
  show "e = DOCUMENT_RESOLUTION_ERROR"
    and "n = length (resolvers (snd (resolveDidDocumet uni c did)))"
    and "\<forall>r \<in> set (resolvers (snd (resolveDidDocumet uni c did))). \<not> gives_document r did"
    by simp_all
qed

theorem combined_resolver_chain_witness:
  "resolvers (snd (resolveDidDocumet uni_resolver \<lparr>resolvers = []\<rparr> ''did:key:z6Mk'')) =
     [uni_resolver] \<and>
   fst (resolveDidDocumet uni_resolver \<lparr>resolvers = []\<rparr> ''did:key:z6Mk'') =
     (Inr ''universal document of did:key:z6Mk'', 1) \<and>
   fst (resolveDidDocumet uni_resolver
          \<lparr>resolvers = [failing_resolver, empty_resolver, key_resolver, ethr_resolver]\<rparr>
          ''did:key:z6Mk'') =
     (Inr ''key-document of did:key:z6Mk'', 3) \<and>
   fst (resolveDidDocumet uni_resolver \<lparr>resolvers = [failing_resolver, empty_resolver]\<rparr>
          ''did:key:z6Mk'') =
     (Inl DOCUMENT_RESOLUTION_ERROR, 2)"
proof -
  let ?did = "''did:key:z6Mk''"
  let ?c0 = "\<lparr>resolvers = []\<rparr> :: string CombinedDidResolver"
  let ?c1 = "\<lparr>resolvers = [failing_resolver, empty_resolver, key_resolver, ethr_resolver]\<rparr>"
  let ?c2 = "\<lparr>resolvers = [failing_resolver, empty_resolver]\<rparr>"
  have nf: "\<not> gives_document failing_resolver ?did"
    by (simp add: gives_document_def failing_resolver_def)
  have ne: "\<not> gives_document empty_resolver ?did"
    by (simp add: gives_document_def empty_resolver_def)
  have kd: "key_resolver ?did = Inr (Some ''key-document of did:key:z6Mk'')"
    by (simp add: key_resolver_def)
  have ud: "uni_resolver ?did = Inr (Some ''universal document of did:key:z6Mk'')"
    by (simp add: uni_resolver_def)
  note t0 = combined_resolver_chain[of ?c0 uni_resolver ?did]
  from t0 have r0: "resolvers (snd (resolveDidDocumet uni_resolver ?c0 ?did)) = [uni_resolver]"
    by simp
  have a: "fst (resolveDidDocumet uni_resolver ?c0 ?did) =
      (Inr ''universal document of did:key:z6Mk'', 1)"
    using t0[THEN conjunct2, THEN conjunct2, THEN conjunct1, rule_format,
        of "[]" uni_resolver "[]" "''universal document of did:key:z6Mk''"] r0 ud
    by simp
  note t1 = combined_resolver_chain[of ?c1 uni_resolver ?did]
  from t1 have r1: "resolvers (snd (resolveDidDocumet uni_resolver ?c1 ?did)) =
      [failing_resolver, empty_resolver, key_resolver, ethr_resolver]"
    by simp
  have b: "fst (resolveDidDocumet uni_resolver ?c1 ?did) =
      (Inr ''key-document of did:key:z6Mk'', 3)"
    using t1[THEN conjunct2, THEN conjunct2, THEN conjunct1, rule_format,
        of "[failing_resolver, empty_resolver]" key_resolver "[ethr_resolver]"
          "''key-document of did:key:z6Mk''"] r1 nf ne kd
    by simp
  note t2 = combined_resolver_chain[of ?c2 uni_resolver ?did]
  from t2 have r2: "resolvers (snd (resolveDidDocumet uni_resolver ?c2 ?did)) =
      [failing_resolver, empty_resolver]"
    by simp
  have c: "fst (resolveDidDocumet uni_resolver ?c2 ?did) =
      (Inl DOCUMENT_RESOLUTION_ERROR, 2)"
    using t2[THEN conjunct2, THEN conjunct2, THEN conjunct2, THEN conjunct1] r2 nf ne
    by simp
  from r0 a b c show ?thesis by blast
qed


section \<open>Properties of the Provider\<close>

subsection \<open>The trial loops of addSigningParams\<close>

lemma format_loop_step:
  "format_loop env key k (f # fs) sis =
     (if combination_matches env key k f then (Some (k_id k), sis @ [pushed_info k key f])
      else format_loop env key k fs sis)"
  by (simp add: combination_matches_def pushed_info_def split: sum.splits bool.splits)

lemma format_loop_skips:
  "\<forall>g \<in> set fpre. \<not> combination_matches env key k g \<Longrightarrow>
   format_loop env key k (fpre @ fs) sis = format_loop env key k fs sis"
  by (induction fpre) (simp_all add: format_loop_step del: format_loop.simps(2))

lemma format_loop_exhausted:
  "\<forall>g \<in> set fs. \<not> combination_matches env key k g \<Longrightarrow>
   format_loop env key k fs sis = (None, sis)"
  using format_loop_skips[of fs env key k "[]" sis] by simp

lemma format_loop_first_match:
  "\<forall>g \<in> set fpre. \<not> combination_matches env key k g \<Longrightarrow> combination_matches env key k f \<Longrightarrow>
   format_loop env key k (fpre @ f # fpost) sis =
     (Some (k_id k), sis @ [pushed_info k key f])"
  using format_loop_skips[of fpre env key k "f # fpost" sis]
  by (simp add: format_loop_step del: format_loop.simps(2))

lemma key_matches_iff:
  "key_matches env key k =
     (\<exists>f \<in> set (KEY_FORMATS_values env). combination_matches env key k f)"
  by (simp add: key_matches_def list_ex_iff)

lemma key_loop_skips_key:
  "\<not> key_matches env key k \<Longrightarrow> key_loop env key (k # ks) sis = key_loop env key ks sis"
  by (simp add: key_matches_iff format_loop_exhausted)

lemma key_loop_skips:
  "\<forall>q \<in> set pre. \<not> key_matches env key q \<Longrightarrow>
   key_loop env key (pre @ ks) sis = key_loop env key ks sis"
  by (induction pre) (simp_all add: key_loop_skips_key del: key_loop.simps(2))

lemma key_loop_exhausted:
  "\<forall>q \<in> set ks. \<not> key_matches env key q \<Longrightarrow> key_loop env key ks sis = (Inl NO_PUBLIC_KEY, sis)"
  using key_loop_skips[of ks env key "[]" sis] by simp

lemma key_loop_first_match:
  assumes "\<forall>q \<in> set pre. \<not> key_matches env key q"
    and "KEY_FORMATS_values env = fpre @ f # fpost"
    and "\<forall>g \<in> set fpre. \<not> combination_matches env key k g"
    and "combination_matches env key k f"
  shows "key_loop env key (pre @ k # post) sis =
           (Inr (k_id k), sis @ [pushed_info k key f])"
  using key_loop_skips[OF assms(1), of "k # post" sis]
    format_loop_first_match[OF assms(3,4), of fpost sis] assms(2)
  by simp

text \<open>Every run of the outer loop ends in one of two ways.\<close>

lemma key_loop_outcome:
  "(\<exists>k f. k \<in> set ks \<and> f \<in> set (KEY_FORMATS_values env) \<and> combination_matches env key k f \<and>
      key_loop env key ks sis = (Inr (k_id k), sis @ [pushed_info k key f])) \<or>
   ((\<forall>q \<in> set ks. \<not> key_matches env key q) \<and> key_loop env key ks sis = (Inl NO_PUBLIC_KEY, sis))"
proof (cases "\<exists>q \<in> set ks. key_matches env key q")
  case True
  then obtain pre k post where ks: "ks = pre @ k # post" and k: "key_matches env key k"
    and pre: "\<forall>q \<in> set pre. \<not> key_matches env key q"
    using split_list_first_prop[of ks "key_matches env key"] by blast
  from k have "\<exists>f \<in> set (KEY_FORMATS_values env). combination_matches env key k f"
    by (simp add: key_matches_iff)
  then obtain fpre f fpost where fs: "KEY_FORMATS_values env = fpre @ f # fpost"
    and f: "combination_matches env key k f"
    and fpre: "\<forall>g \<in> set fpre. \<not> combination_matches env key k g"
    using split_list_first_prop[of "KEY_FORMATS_values env" "combination_matches env key k"]
    by blast
  from key_loop_first_match[OF pre fs fpre f, of post sis] ks
  have "key_loop env key ks sis = (Inr (k_id k), sis @ [pushed_info k key f])" by simp
  moreover from ks have "k \<in> set ks" by simp
  moreover from fs have "f \<in> set (KEY_FORMATS_values env)" by simp
  ultimately show ?thesis using f by blast
next
  case False
  then have "\<forall>q \<in> set ks. \<not> key_matches env key q" by blast
  with key_loop_exhausted[OF this, of sis] show ?thesis by blast
qed

lemma addSigningParams_resolved:
  "extractAuthenticationKeys env (identity p) = Inr keys \<Longrightarrow> normalize_key env key = Inr key' \<Longrightarrow>
   addSigningParams env p key =
     (fst (key_loop env key' keys (signing_info_set p)),
      p\<lparr>signing_info_set := snd (key_loop env key' keys (signing_info_set p))\<rparr>)"
  by (simp add: addSigningParams_def split: prod.splits)

lemma addSigningParams_cases:
  "(\<exists>e. addSigningParams env p key = (Inl e, p)) \<or>
   (\<exists>keys key' k f.
      extractAuthenticationKeys env (identity p) = Inr keys \<and> normalize_key env key = Inr key' \<and>
      k \<in> set keys \<and> f \<in> set (KEY_FORMATS_values env) \<and> combination_matches env key' k f \<and>
      addSigningParams env p key =
        (Inr (k_id k),
         p\<lparr>signing_info_set := signing_info_set p @ [pushed_info k key' f]\<rparr>))"
proof (cases "extractAuthenticationKeys env (identity p)")
  case (Inl e)
  then show ?thesis by (simp add: addSigningParams_def)
next
  case (Inr keys)
  note ext = this
  show ?thesis
  proof (cases "normalize_key env key")
    case (Inl e)
    with ext show ?thesis by (simp add: addSigningParams_def)
  next
    case (Inr key')
    from key_loop_outcome[of keys env key' "signing_info_set p"]
    show ?thesis
    proof
      assume "\<exists>k f. k \<in> set keys \<and> f \<in> set (KEY_FORMATS_values env) \<and>
          combination_matches env key' k f \<and>
          key_loop env key' keys (signing_info_set p) =
            (Inr (k_id k), signing_info_set p @ [pushed_info k key' f])"
      then obtain k f where "k \<in> set keys" "f \<in> set (KEY_FORMATS_values env)"
          "combination_matches env key' k f"
          "key_loop env key' keys (signing_info_set p) =
            (Inr (k_id k), signing_info_set p @ [pushed_info k key' f])"
        by blast
      with ext Inr show ?thesis
        by (auto simp add: addSigningParams_resolved)
    next
      assume "(\<forall>q \<in> set keys. \<not> key_matches env key' q) \<and>
          key_loop env key' keys (signing_info_set p) = (Inl NO_PUBLIC_KEY, signing_info_set p)"
      with ext Inr show ?thesis
        by (simp add: addSigningParams_resolved)
    qed
  qed
qed


subsection \<open>Claims about addSigningParams\<close>

text \<open>
  Claim C2. For a resolved identity whose authentication keys are \<open>pre @ k # post\<close>,
  and a private key (after the multibase normalisation) that passes the key-pair check
  against \<open>k\<close> in some format and against no key of \<open>pre\<close> in any format,
  \<open>addSigningParams\<close> returns the id of \<open>k\<close>, the first matching entry in document
  order, and pushes a SigningInfo with the algorithm of \<open>k\<close> as extracted from the
  document, that id, the normalised private key and the first format that passed.
\<close>

theorem addSigningParams_first_match:
  assumes "extractAuthenticationKeys env (identity p) = Inr (pre @ k # post)"
    and "normalize_key env key = Inr key'"
    and "\<forall>q \<in> set pre. \<not> key_matches env key' q"
    and "key_matches env key' k"
  shows "\<exists>fpre f fpost.
           KEY_FORMATS_values env = fpre @ f # fpost \<and>
           (\<forall>g \<in> set fpre. \<not> combination_matches env key' k g) \<and>
           combination_matches env key' k f \<and>
           addSigningParams env p key =
             (Inr (k_id k),
              p\<lparr>signing_info_set := signing_info_set p @
                  [\<lparr>si_alg = alg k, si_kid = k_id k, si_key = key', si_format = f\<rparr>]\<rparr>)"
proof -
  from assms(4) have "\<exists>f \<in> set (KEY_FORMATS_values env). combination_matches env key' k f"
    by (simp add: key_matches_iff)
  then obtain fpre f fpost where fs: "KEY_FORMATS_values env = fpre @ f # fpost"
    and f: "combination_matches env key' k f"
    and fpre: "\<forall>g \<in> set fpre. \<not> combination_matches env key' k g"
    using split_list_first_prop[of "KEY_FORMATS_values env" "combination_matches env key' k"]
    by blast
  from key_loop_first_match[OF assms(3) fs fpre f, of post "signing_info_set p"]
  have "addSigningParams env p key =
      (Inr (k_id k), p\<lparr>signing_info_set := signing_info_set p @ [pushed_info k key' f]\<rparr>)"
    by (simp add: addSigningParams_resolved[OF assms(1,2)])
  with fs f fpre show ?thesis unfolding pushed_info_def by blast
qed

theorem addSigningParams_first_match_witness:
  "extractAuthenticationKeys toy_env (identity toy_provider) =
     Inr ([key_oct, key_a] @ key_b # [key_c]) \<and>
   normalize_key toy_env ''zc3d4'' = Inr ''c3d4'' \<and>
   \<not> key_matches toy_env ''c3d4'' key_oct \<and> \<not> key_matches toy_env ''c3d4'' key_a \<and>
   key_matches toy_env ''c3d4'' key_b \<and> key_matches toy_env ''c3d4'' key_c \<and>
   addSigningParams toy_env toy_provider ''zc3d4'' =
     (Inr ''did:example:123#key-b'', toy_provider\<lparr>signing_info_set := [old_info, new_info]\<rparr>) \<and>
   fst (addSigningParams toy_env toy_provider ''zc3d4'') = Inr (k_id key_b) \<and>
   si_alg (last (signing_info_set (snd (addSigningParams toy_env toy_provider ''zc3d4'')))) =
     alg key_b"
proof -
  have e: "extractAuthenticationKeys toy_env (identity toy_provider) =
      Inr ([key_oct, key_a] @ key_b # [key_c])"
    by code_simp
  have n: "normalize_key toy_env ''zc3d4'' = Inr ''c3d4''" by code_simp
  have m1: "\<not> key_matches toy_env ''c3d4'' key_oct" by code_simp
  have m2: "\<not> key_matches toy_env ''c3d4'' key_a" by code_simp
  have m3: "key_matches toy_env ''c3d4'' key_b" by code_simp
  have m4: "key_matches toy_env ''c3d4'' key_c" by code_simp
  have r: "addSigningParams toy_env toy_provider ''zc3d4'' =
     (Inr ''did:example:123#key-b'', toy_provider\<lparr>signing_info_set := [old_info, new_info]\<rparr>)"
    by code_simp
  from m1 m2 have pre: "\<forall>q \<in> set [key_oct, key_a]. \<not> key_matches toy_env ''c3d4'' q"
    by simp
  from addSigningParams_first_match[OF e n pre m3]
  obtain f where f: "addSigningParams toy_env toy_provider ''zc3d4'' =
      (Inr (k_id key_b),
       toy_provider\<lparr>signing_info_set := signing_info_set toy_provider @
         [\<lparr>si_alg = alg key_b, si_kid = k_id key_b, si_key = ''c3d4'', si_format = f\<rparr>]\<rparr>)"
    by blast
  from f have k: "fst (addSigningParams toy_env toy_provider ''zc3d4'') = Inr (k_id key_b)"
    by simp
  from f have a: "si_alg (last (signing_info_set
      (snd (addSigningParams toy_env toy_provider ''zc3d4'')))) = alg key_b"
    by simp
  from e n m1 m2 m3 m4 r k a show ?thesis by blast
qed

text \<open>
  Claim C5. For a resolved identity and a private key (after the multibase
  normalisation) that passes the key-pair check against no authentication key in any
  format, \<open>addSigningParams\<close> fails with the Provider's \<open>NO_PUBLIC_KEY\<close> ("No public key
  matches given private key") and leaves the Provider as it was; and it fails so only
  when every key in every format has been tried without success.
\<close>

theorem addSigningParams_no_match:
  assumes "extractAuthenticationKeys env (identity p) = Inr keys"
    and "normalize_key env key = Inr key'"
  shows "((\<forall>k \<in> set keys. \<not> key_matches env key' k) \<longrightarrow>
            addSigningParams env p key = (Inl NO_PUBLIC_KEY, p)) \<and>
         (fst (addSigningParams env p key) = Inl NO_PUBLIC_KEY \<longrightarrow>
            (\<forall>k \<in> set keys. \<forall>f \<in> set (KEY_FORMATS_values env).
               \<not> combination_matches env key' k f))"
proof (intro conjI impI)
  assume "\<forall>k \<in> set keys. \<not> key_matches env key' k"
  from key_loop_exhausted[OF this, of "signing_info_set p"]
  show "addSigningParams env p key = (Inl NO_PUBLIC_KEY, p)"
    by (simp add: addSigningParams_resolved[OF assms])
next
  assume "fst (addSigningParams env p key) = Inl NO_PUBLIC_KEY"
  then have "fst (key_loop env key' keys (signing_info_set p)) = Inl NO_PUBLIC_KEY"
    by (simp add: addSigningParams_resolved[OF assms])
  with key_loop_outcome[of keys env key' "signing_info_set p"]
  have "\<forall>q \<in> set keys. \<not> key_matches env key' q" by auto
  then show "\<forall>k \<in> set keys. \<forall>f \<in> set (KEY_FORMATS_values env).
      \<not> combination_matches env key' k f"
    by (simp add: key_matches_iff)
qed

theorem addSigningParams_no_match_witness:
  "extractAuthenticationKeys toy_env (identity toy_provider) =
     Inr [key_oct, key_a, key_b, key_c] \<and>
   normalize_key toy_env ''ffff'' = Inr ''ffff'' \<and>
   \<not> list_ex (key_matches toy_env ''ffff'') [key_oct, key_a, key_b, key_c] \<and>
   addSigningParams toy_env toy_provider ''ffff'' = (Inl NO_PUBLIC_KEY, toy_provider)"
proof -
  have e: "extractAuthenticationKeys toy_env (identity toy_provider) =
      Inr [key_oct, key_a, key_b, key_c]"
    by code_simp
  have n: "normalize_key toy_env ''ffff'' = Inr ''ffff''" by code_simp
  have m: "\<not> list_ex (key_matches toy_env ''ffff'') [key_oct, key_a, key_b, key_c]"
    by code_simp
  then have "\<forall>k \<in> set [key_oct, key_a, key_b, key_c]. \<not> key_matches toy_env ''ffff'' k"
    by (simp add: list_ex_iff)
  with addSigningParams_no_match[OF e n]
  have "addSigningParams toy_env toy_provider ''ffff'' = (Inl NO_PUBLIC_KEY, toy_provider)"
    by blast
  with e n m show ?thesis by blast
qed

text \<open>
  Claim C9. A call of \<open>addSigningParams\<close> that returns a kid has appended exactly one
  SigningInfo, with that kid, to the end of the set and changed nothing else of the
  Provider; a call that fails leaves the Provider, and so the set, as it was.
\<close>

theorem addSigningParams_atomic:
  "(\<forall>kid. fst (addSigningParams env p key) = Inr kid \<longrightarrow>
      (\<exists>info. si_kid info = kid \<and>
         snd (addSigningParams env p key) =
           p\<lparr>signing_info_set := signing_info_set p @ [info]\<rparr>)) \<and>
   (\<forall>e. fst (addSigningParams env p key) = Inl e \<longrightarrow> snd (addSigningParams env p key) = p)"
proof -
  from addSigningParams_cases[of env p key] show ?thesis
  proof
    assume "\<exists>e. addSigningParams env p key = (Inl e, p)"
    then show ?thesis by auto
  next
    assume "\<exists>keys key' k f.
      extractAuthenticationKeys env (identity p) = Inr keys \<and> normalize_key env key = Inr key' \<and>
      k \<in> set keys \<and> f \<in> set (KEY_FORMATS_values env) \<and> combination_matches env key' k f \<and>
      addSigningParams env p key =
        (Inr (k_id k), p\<lparr>signing_info_set := signing_info_set p @ [pushed_info k key' f]\<rparr>)"
    then obtain k key' f where r: "addSigningParams env p key =
        (Inr (k_id k), p\<lparr>signing_info_set := signing_info_set p @ [pushed_info k key' f]\<rparr>)"
      by blast
    have "si_kid (pushed_info k key' f) = k_id k" by (simp add: pushed_info_def)
    with r show ?thesis by auto
  qed
qed

theorem addSigningParams_atomic_witness:
  "fst (addSigningParams toy_env toy_provider ''c3d4'') = Inr ''did:example:123#key-b'' \<and>
   signing_info_set (snd (addSigningParams toy_env toy_provider ''c3d4'')) =
     signing_info_set toy_provider @ [new_info] \<and>
   fst (addSigningParams toy_env toy_provider ''ffff'') = Inl NO_PUBLIC_KEY \<and>
   snd (addSigningParams toy_env toy_provider ''ffff'') = toy_provider \<and>
   fst (addSigningParams toy_env unresolved_provider ''c3d4'') = Inl UNRESOLVED_IDENTITY \<and>
   snd (addSigningParams toy_env unresolved_provider ''c3d4'') = unresolved_provider \<and>
   butlast (signing_info_set (snd (addSigningParams toy_env toy_provider ''c3d4''))) =
     signing_info_set toy_provider \<and>
   si_kid (last (signing_info_set (snd (addSigningParams toy_env toy_provider ''c3d4'')))) =
     ''did:example:123#key-b'' \<and>
   identity (snd (addSigningParams toy_env toy_provider ''c3d4'')) = identity toy_provider"
proof -
  have a: "fst (addSigningParams toy_env toy_provider ''c3d4'') = Inr ''did:example:123#key-b''"
    by code_simp
  from addSigningParams_atomic[of toy_env toy_provider "''c3d4''"] a
  obtain info where i1: "si_kid info = ''did:example:123#key-b''"
    and i2: "snd (addSigningParams toy_env toy_provider ''c3d4'') =
      toy_provider\<lparr>signing_info_set := signing_info_set toy_provider @ [info]\<rparr>"
    by blast
  from i2 have g: "butlast (signing_info_set (snd (addSigningParams toy_env toy_provider
      ''c3d4''))) = signing_info_set toy_provider"
    by simp
  from i1 i2 have h: "si_kid (last (signing_info_set (snd (addSigningParams toy_env
      toy_provider ''c3d4'')))) = ''did:example:123#key-b''"
    by simp
  from i2 have j: "identity (snd (addSigningParams toy_env toy_provider ''c3d4'')) =
      identity toy_provider"
    by simp
  have b: "signing_info_set (snd (addSigningParams toy_env toy_provider ''c3d4'')) =
     signing_info_set toy_provider @ [new_info]"
    by code_simp
  have c: "fst (addSigningParams toy_env toy_provider ''ffff'') = Inl NO_PUBLIC_KEY"
    by code_simp
  have d: "fst (addSigningParams toy_env unresolved_provider ''c3d4'') = Inl UNRESOLVED_IDENTITY"
    by code_simp
  from addSigningParams_atomic[of toy_env toy_provider "''ffff''"] c
  have c': "snd (addSigningParams toy_env toy_provider ''ffff'') = toy_provider" by blast
  from addSigningParams_atomic[of toy_env unresolved_provider "''c3d4''"] d
  have d': "snd (addSigningParams toy_env unresolved_provider ''c3d4'') = unresolved_provider"
    by blast
  from a b c c' d d' g h j show ?thesis by blast
qed

text \<open>
  Claim C10. Inside the trial loop nothing but a passed check ends an iteration: a
  document key whose key type is none of RSA, EC and OKP is passed over, a combination
  in which a key constructor or the key-pair check throws is passed over, and the loop
  as a whole either returns a kid or fails with the Provider's \<open>NO_PUBLIC_KEY\<close>; so
  for a resolved identity (and a private key the multibase step accepts) this is the
  only failure of \<open>addSigningParams\<close>.
\<close>

theorem trial_failures_are_skipped:
  "(kty k \<noteq> RSA \<and> kty k \<noteq> EC \<and> kty k \<noteq> OKP \<longrightarrow>
      key_loop env key (k # ks) sis = key_loop env key ks sis) \<and>
   (\<forall>e. try_combination env k (publicKeyInfo k) (privateKeyInfo key k f) = Inl e \<longrightarrow>
      format_loop env key k (f # fs) sis = format_loop env key k fs sis) \<and>
   (\<forall>e. fst (key_loop env key ks sis) = Inl e \<longrightarrow> e = NO_PUBLIC_KEY) \<and>
   (\<forall>keys key' e.
      extractAuthenticationKeys env (identity p) = Inr keys \<and>
      normalize_key env key0 = Inr key' \<and> fst (addSigningParams env p key0) = Inl e \<longrightarrow>
      e = NO_PUBLIC_KEY)"
proof (intro conjI allI impI)
  assume other: "kty k \<noteq> RSA \<and> kty k \<noteq> EC \<and> kty k \<noteq> OKP"
  then have "kty k = OTHER_KTY" by (cases "kty k") simp_all
  then have "\<not> combination_matches env key k g" for g
    by (simp add: combination_matches_def try_combination_def)
  then have "\<not> key_matches env key k" by (simp add: key_matches_iff)
  then show "key_loop env key (k # ks) sis = key_loop env key ks sis"
    by (rule key_loop_skips_key)
next
  fix e
  assume "try_combination env k (publicKeyInfo k) (privateKeyInfo key k f) = Inl e"
  then show "format_loop env key k (f # fs) sis = format_loop env key k fs sis"
    by simp
next
  fix e
  assume "fst (key_loop env key ks sis) = Inl e"
  with key_loop_outcome[of ks env key sis] show "e = NO_PUBLIC_KEY" by auto
next
  fix keys key' e
  assume a: "extractAuthenticationKeys env (identity p) = Inr keys \<and>
      normalize_key env key0 = Inr key' \<and> fst (addSigningParams env p key0) = Inl e"
  then have "extractAuthenticationKeys env (identity p) = Inr keys"
    and "normalize_key env key0 = Inr key'" by simp_all
  from addSigningParams_resolved[OF this] a
  have "fst (key_loop env key' keys (signing_info_set p)) = Inl e" by simp
  with key_loop_outcome[of keys env key' "signing_info_set p"] show "e = NO_PUBLIC_KEY"
    by auto
qed

theorem trial_failures_are_skipped_witness:
  "kty key_oct \<noteq> RSA \<and> kty key_oct \<noteq> EC \<and> kty key_oct \<noteq> OKP \<and>
   key_loop toy_env ''c3d4'' (key_oct # [key_b]) [] = key_loop toy_env ''c3d4'' [key_b] [] \<and>
   try_combination toy_env key_b (publicKeyInfo key_b) (privateKeyInfo ''c3d4'' key_b PKCS8_PEM) =
     Inl (OtherError ''Invalid key format'') \<and>
   format_loop toy_env ''c3d4'' key_b (PKCS8_PEM # [HEX]) [] =
     format_loop toy_env ''c3d4'' key_b [HEX] [] \<and>
   key_loop toy_env ''c3d4'' [key_b] [] = (Inr ''did:example:123#key-b'', [new_info]) \<and>
   extractAuthenticationKeys toy_env (identity toy_provider) =
     Inr [key_oct, key_a, key_b, key_c] \<and>
   normalize_key toy_env ''ffff'' = Inr ''ffff'' \<and>
   fst (addSigningParams toy_env toy_provider ''ffff'') = Inl NO_PUBLIC_KEY"
proof -
  note t = trial_failures_are_skipped[of key_oct toy_env "''c3d4''" "[key_b]" "[]"]
  have o: "kty key_oct \<noteq> RSA \<and> kty key_oct \<noteq> EC \<and> kty key_oct \<noteq> OKP"
    by (simp add: key_oct_def)
  with t have a: "key_loop toy_env ''c3d4'' (key_oct # [key_b]) [] =
      key_loop toy_env ''c3d4'' [key_b] []"
    by blast
  have th: "try_combination toy_env key_b (publicKeyInfo key_b)
      (privateKeyInfo ''c3d4'' key_b PKCS8_PEM) = Inl (OtherError ''Invalid key format'')"
    by code_simp
  with trial_failures_are_skipped[of key_b toy_env "''c3d4''" "[]" "[]" PKCS8_PEM "[HEX]"]
  have b: "format_loop toy_env ''c3d4'' key_b (PKCS8_PEM # [HEX]) [] =
      format_loop toy_env ''c3d4'' key_b [HEX] []"
    by blast
  have c: "key_loop toy_env ''c3d4'' [key_b] [] = (Inr ''did:example:123#key-b'', [new_info])"
    by code_simp
  have e: "extractAuthenticationKeys toy_env (identity toy_provider) =
      Inr [key_oct, key_a, key_b, key_c]"
    by code_simp
  have n: "normalize_key toy_env ''ffff'' = Inr ''ffff''" by code_simp
  have f: "fst (addSigningParams toy_env toy_provider ''ffff'') = Inl NO_PUBLIC_KEY"
    by code_simp
  from o a th b c e n f show ?thesis by blast
qed


subsection \<open>Claims about removeSigningParams and the response generators\<close>

lemma count_list_filter_keep: "P x \<Longrightarrow> count_list (filter P xs) x = count_list xs x"
  by (induction xs) auto

text \<open>
  Claim C8. \<open>removeSigningParams(kid)\<close> leaves no entry with that kid in the set; the
  entries whose kid differs are the same before and after, in the same order; the set is
  unchanged when no entry has that kid; and the identity is not touched.
\<close>

theorem removeSigningParams_frame:
  "(\<forall>s \<in> set (signing_info_set (removeSigningParams kid p)). si_kid s \<noteq> kid) \<and>
   filter (\<lambda>s. si_kid s \<noteq> kid) (signing_info_set (removeSigningParams kid p)) =
     filter (\<lambda>s. si_kid s \<noteq> kid) (signing_info_set p) \<and>
   (\<forall>s. si_kid s \<noteq> kid \<longrightarrow>
      count_list (signing_info_set (removeSigningParams kid p)) s =
        count_list (signing_info_set p) s) \<and>
   ((\<forall>s \<in> set (signing_info_set p). si_kid s \<noteq> kid) \<longrightarrow> removeSigningParams kid p = p) \<and>
   identity (removeSigningParams kid p) = identity p"
proof (intro conjI allI impI)
  show "\<forall>s \<in> set (signing_info_set (removeSigningParams kid p)). si_kid s \<noteq> kid"
    by (simp add: removeSigningParams_def)
  show "filter (\<lambda>s. si_kid s \<noteq> kid) (signing_info_set (removeSigningParams kid p)) =
      filter (\<lambda>s. si_kid s \<noteq> kid) (signing_info_set p)"
    by (simp add: removeSigningParams_def)
  show "count_list (signing_info_set (removeSigningParams kid p)) s =
      count_list (signing_info_set p) s" if "si_kid s \<noteq> kid" for s
    using that by (simp add: removeSigningParams_def count_list_filter_keep)
  show "removeSigningParams kid p = p" if "\<forall>s \<in> set (signing_info_set p). si_kid s \<noteq> kid"
  proof -
    from that have "filter (\<lambda>s. si_kid s \<noteq> kid) (signing_info_set p) = signing_info_set p"
      by (simp add: filter_id_conv)
    then show ?thesis by (simp add: removeSigningParams_def)
  qed
  show "identity (removeSigningParams kid p) = identity p"
    by (simp add: removeSigningParams_def)
qed

theorem removeSigningParams_frame_witness:
  "signing_info_set (removeSigningParams ''did:example:123#key-a''
      (toy_provider\<lparr>signing_info_set := [old_info, new_info, old_info]\<rparr>)) = [new_info] \<and>
   si_kid new_info \<noteq> ''did:example:123#key-a'' \<and>
   count_list (signing_info_set (removeSigningParams ''did:example:123#key-a''
      (toy_provider\<lparr>signing_info_set := [old_info, new_info, old_info]\<rparr>))) new_info = 1 \<and>
   \<not> list_ex (\<lambda>s. si_kid s = ''did:example:123#key-c'') (signing_info_set toy_provider) \<and>
   removeSigningParams ''did:example:123#key-c'' toy_provider = toy_provider"
proof -
  let ?p = "toy_provider\<lparr>signing_info_set := [old_info, new_info, old_info]\<rparr>"
  have a: "signing_info_set (removeSigningParams ''did:example:123#key-a'' ?p) = [new_info]"
    by code_simp
  have b: "si_kid new_info \<noteq> ''did:example:123#key-a''" by (simp add: new_info_def)
  have c0: "count_list (signing_info_set ?p) new_info = 1" by code_simp
  from removeSigningParams_frame[of "''did:example:123#key-a''" ?p] b c0
  have c: "count_list (signing_info_set (removeSigningParams ''did:example:123#key-a'' ?p))
      new_info = 1"
    by metis
  have d: "\<not> list_ex (\<lambda>s. si_kid s = ''did:example:123#key-c'') (signing_info_set toy_provider)"
    by code_simp
  then have "\<forall>s \<in> set (signing_info_set toy_provider). si_kid s \<noteq> ''did:example:123#key-c''"
    by (simp add: list_ex_iff)
  with removeSigningParams_frame[of "''did:example:123#key-c''" toy_provider]
  have e: "removeSigningParams ''did:example:123#key-c'' toy_provider = toy_provider"
    by blast
  from a b c d e show ?thesis by blast
qed

subsection \<open>The random index\<close>















lemma boundary_exact_floor: "\<lfloor>double_value boundary_double * 7\<rfloor> = 3"
  by (simp add: double_value_def boundary_double_def floor_eq_iff)




end
